theory Spec2Isabelle
  imports Complex_Main "HOL-Library.Word"
begin

unbundle bit_operations_syntax

section \<open>Exceptions\<close>

text \<open>
  Every \<^verbatim>\<open>throw\<close> of the sources under study raises a \<^verbatim>\<open>std::runtime_error\<close> carrying a
  message. Failures raised by collaborators whose code is not part of the sources (the
  signal check, the message-passing substrate, the archive) are kept apart under
  \<open>foreign\<close>, so that a result says which side raised.
\<close>

datatype 'x exception = runtime_error string | foreign 'x

section \<open>Identifiers (\<^verbatim>\<open>index.hpp\<close>)\<close>

text \<open>\<^verbatim>\<open>identifier_t\<close> is \<^verbatim>\<open>unsigned long\<close> (64 bits), \<^verbatim>\<open>unsigned\<close> has 32 bits.\<close>

type_synonym identifier_t = "64 word"
type_synonym unsigned = "32 word"

definition SPATIAL_INDEX_STRUCT_VERSION :: unsigned where
  "SPATIAL_INDEX_STRUCT_VERSION = 2"

definition N_SEGMENT_BITS :: nat where
  "N_SEGMENT_BITS = 14"

definition N_SECTION_BITS :: nat where
  "N_SECTION_BITS = 14"

definition N_TOTAL_BITS :: nat where
  "N_TOTAL_BITS = N_SEGMENT_BITS + N_SECTION_BITS"

definition N_GID_BITS :: nat where
  "N_GID_BITS = 64 - N_TOTAL_BITS"

definition mask_bits :: "nat \<Rightarrow> 'a::len word" where
  "mask_bits n_bits = push_bit n_bits 1 - 1"

definition MASK_SEGMENT_BITS :: identifier_t where
  "MASK_SEGMENT_BITS = mask_bits N_SEGMENT_BITS"

definition MASK_SECTION_BITS :: identifier_t where
  "MASK_SECTION_BITS = push_bit N_SEGMENT_BITS (mask_bits N_SECTION_BITS)"

record ShapeId =
  id :: identifier_t

text \<open>
  The members \<^verbatim>\<open>post_gid_\<close> and \<^verbatim>\<open>pre_gid_\<close> of \<^verbatim>\<open>SynapseId\<close> are the fields
  \<open>m_post_gid\<close> and \<open>m_pre_gid\<close> (a name cannot end in an underscore here).
\<close>

record SynapseId = ShapeId +
  m_post_gid :: identifier_t
  m_pre_gid :: identifier_t

text \<open>
  The three-argument constructor of \<^verbatim>\<open>SynapseId\<close> is \<^verbatim>\<open>noexcept\<close>: it has no failing
  branch, so the model returns the record itself. The second definition is the same
  constructor called with \<^verbatim>\<open>post_gid\<close> and \<^verbatim>\<open>pre_gid\<close> left at their defaults.
\<close>

definition SynapseId :: "identifier_t \<Rightarrow> identifier_t \<Rightarrow> identifier_t \<Rightarrow> SynapseId" where
  "SynapseId syn_id post_gid pre_gid = \<lparr>id = syn_id, m_post_gid = post_gid, m_pre_gid = pre_gid\<rparr>"

definition SynapseId_default :: "identifier_t \<Rightarrow> SynapseId" where
  "SynapseId_default syn_id = SynapseId syn_id 0 0"

definition post_gid :: "SynapseId \<Rightarrow> identifier_t" where
  "post_gid s = m_post_gid s"

definition pre_gid :: "SynapseId \<Rightarrow> identifier_t" where
  "pre_gid s = m_pre_gid s"

definition is_gid_safe :: "identifier_t \<Rightarrow> bool" where
  "is_gid_safe gid = (gid AND NOT (mask_bits N_GID_BITS) = 0)"

definition is_section_id_safe :: "unsigned \<Rightarrow> bool" where
  "is_section_id_safe section_id = (section_id AND NOT (mask_bits N_SECTION_BITS) = 0)"

definition is_segment_id_safe :: "unsigned \<Rightarrow> bool" where
  "is_segment_id_safe segment_id = (segment_id AND NOT (mask_bits N_SEGMENT_BITS) = 0)"

text \<open>
  The constructor of \<^verbatim>\<open>MorphPartId\<close>. The member initialiser computes the packed value
  first: \<^verbatim>\<open>section_id << N_SEGMENT_BITS\<close> is a 32-bit shift, widened to 64 bits for the
  sum. The body then throws when one of the three checks fails.
\<close>

definition MorphPartId :: "identifier_t \<Rightarrow> unsigned \<Rightarrow> unsigned \<Rightarrow> 'x exception + ShapeId" where
  "MorphPartId gid section_id segment_id =
     (let packed = push_bit N_TOTAL_BITS gid
                   + ucast (push_bit N_SEGMENT_BITS section_id)
                   + ucast segment_id
      in if \<not> (is_gid_safe gid \<and> is_section_id_safe section_id \<and> is_segment_id_safe segment_id)
         then (if \<not> is_gid_safe gid then Inl (runtime_error ''Invalid gid.'')
               else if \<not> is_section_id_safe section_id
                 then Inl (runtime_error ''Invalid section_id.'')
               else Inl (runtime_error ''Invalid segment_id.''))
         else Inr \<lparr>id = packed\<rparr>)"

text \<open>
  \<^verbatim>\<open>util::integer_cast\<close> is declared in \<^verbatim>\<open>util.hpp\<close>, which is not among the sources. It
  is taken to be the value-preserving conversion to the narrower type; both calls below
  pass a value already masked to 14 bits.
\<close>

definition integer_cast :: "identifier_t \<Rightarrow> unsigned" where
  "integer_cast x = ucast x"

definition gid :: "ShapeId \<Rightarrow> identifier_t" where
  "gid m = drop_bit N_TOTAL_BITS (id m)"

definition segment_id :: "ShapeId \<Rightarrow> unsigned" where
  "segment_id m = integer_cast (id m AND MASK_SEGMENT_BITS)"

definition section_id :: "ShapeId \<Rightarrow> unsigned" where
  "section_id m = integer_cast (drop_bit N_SEGMENT_BITS (id m AND MASK_SECTION_BITS))"

text \<open>
  The error kind \<^verbatim>\<open>InvalidIdentifier\<close>: the three exceptions the constructor of
  \<^verbatim>\<open>MorphPartId\<close> can raise.
\<close>

definition InvalidIdentifier :: "'x exception \<Rightarrow> bool" where
  "InvalidIdentifier e =
     (e = runtime_error ''Invalid gid.'' \<or> e = runtime_error ''Invalid section_id.''
      \<or> e = runtime_error ''Invalid segment_id.'')"

text \<open>
  \<^verbatim>\<open>IndexedShape::serialize\<close>, called by the archive with the class version of the record
  being written or read. The two \<^verbatim>\<open>ar & base_object\<close> steps belong to the archive
  library, which is not among the sources: they are the parameters \<open>ar_IndexT\<close> and
  \<open>ar_ShapeT\<close>, each either failing or returning the advanced archive.
\<close>

definition IndexedShape_serialize ::
  "('ar \<Rightarrow> 'x + 'ar) \<Rightarrow> ('ar \<Rightarrow> 'x + 'ar) \<Rightarrow> 'ar \<Rightarrow> unsigned \<Rightarrow> 'x exception + 'ar" where
  "IndexedShape_serialize ar_IndexT ar_ShapeT ar version =
     (if version > SPATIAL_INDEX_STRUCT_VERSION
      then Inl (runtime_error
                  ''File format is in a future format. Please update Spatial Index.'')
      else (case ar_IndexT ar of
              Inl x \<Rightarrow> Inl (foreign x)
            | Inr ar1 \<Rightarrow> (case ar_ShapeT ar1 of
                           Inl x \<Rightarrow> Inl (foreign x)
                         | Inr ar2 \<Rightarrow> Inr ar2)))"

text \<open>The error kind \<^verbatim>\<open>FutureFormat\<close>: the exception \<^verbatim>\<open>serialize\<close> raises.\<close>

definition FutureFormat :: "'x exception \<Rightarrow> bool" where
  "FutureFormat e =
     (e = runtime_error ''File format is in a future format. Please update Spatial Index.'')"

section \<open>Arithmetic of \<^verbatim>\<open>CoordType\<close>\<close>

text \<open>
  \<^verbatim>\<open>CoordType\<close> is \<^verbatim>\<open>float\<close>, or \<^verbatim>\<open>double\<close> under \<^verbatim>\<open>BBPSPATIAL_DOUBLE_PRECISION\<close>
  (\<^verbatim>\<open>point3d.hpp\<close>): an IEEE 754 binary format, given by its precision and its largest
  exponent. A value of the format is a real number, an infinity or a NaN. The two zeros
  are one value: no comparison tells them apart, and a zero divisor in the functions
  below is a sum of squares, a square root or a converted integer, which is the
  positive zero.
\<close>

datatype fp = Finite real | PlusInfinity | MinusInfinity | NaN

record format =
  precision :: nat
  emax :: int

definition binary32 :: format where
  "binary32 = \<lparr>precision = 24, emax = 127\<rparr>"

definition binary64 :: format where
  "binary64 = \<lparr>precision = 53, emax = 1023\<rparr>"

definition pow2 :: "int \<Rightarrow> real" where
  "pow2 k = (if 0 \<le> k then 2 ^ nat k else 1 / 2 ^ nat (- k))"

text \<open>
  Rounding to the format, to nearest with ties to even. \<open>ulp_exponent fmt x\<close> is the
  exponent \<open>q\<close> of the unit in the last place at \<open>x\<close>: the least \<open>q\<close> from the exponent of
  the subnormal numbers upwards with \<open>\<bar>x\<bar> < 2\<^bsup>q + precision\<^esup>\<close>. The rounded value is the
  multiple of \<open>2\<^bsup>q\<^esup>\<close> nearest to \<open>x\<close>, or an infinity when that multiple reaches
  \<open>2\<^bsup>emax + 1\<^esup>\<close>.
\<close>

definition round_half_even :: "real \<Rightarrow> int" where
  "round_half_even m =
     (let f = \<lfloor>m\<rfloor>; r = m - of_int f
      in if r < 1 / 2 then f
         else if 1 / 2 < r then f + 1
         else if even f then f else f + 1)"

fun ulp_search :: "nat \<Rightarrow> nat \<Rightarrow> int \<Rightarrow> real \<Rightarrow> int" where
  "ulp_search 0 p q a = q"
| "ulp_search (Suc n) p q a = (if a < pow2 (q + int p) then q else ulp_search n p (q + 1) a)"

definition ulp_exponent :: "format \<Rightarrow> real \<Rightarrow> int" where
  "ulp_exponent fmt x =
     ulp_search (nat (2 * emax fmt)) (precision fmt) (2 - emax fmt - int (precision fmt)) \<bar>x\<bar>"

definition fround :: "format \<Rightarrow> real \<Rightarrow> fp" where
  "fround fmt x =
     (let q = ulp_exponent fmt x;
          y = of_int (round_half_even (x / pow2 q)) * pow2 q
      in if pow2 (emax fmt + 1) \<le> \<bar>y\<bar>
         then (if 0 < x then PlusInfinity else MinusInfinity)
         else Finite y)"

text \<open>
  The operations \<^verbatim>\<open>+\<close>, \<^verbatim>\<open>-\<close>, \<^verbatim>\<open>*\<close>, \<^verbatim>\<open>/\<close> and \<^verbatim>\<open>std::sqrt\<close> on \<^verbatim>\<open>CoordType\<close>. Each one
  computes the exact result of its operands and rounds it once to the format; no product
  is fused into a sum and no intermediate result is kept in a wider format. The
  operands may be any real numbers, those of the format among them.
\<close>

fun fneg :: "fp \<Rightarrow> fp" where
  "fneg (Finite x) = Finite (- x)"
| "fneg PlusInfinity = MinusInfinity"
| "fneg MinusInfinity = PlusInfinity"
| "fneg NaN = NaN"

fun fadd :: "format \<Rightarrow> fp \<Rightarrow> fp \<Rightarrow> fp" where
  "fadd fmt (Finite x) (Finite y) = fround fmt (x + y)"
| "fadd fmt NaN b = NaN"
| "fadd fmt a NaN = NaN"
| "fadd fmt PlusInfinity MinusInfinity = NaN"
| "fadd fmt MinusInfinity PlusInfinity = NaN"
| "fadd fmt PlusInfinity b = PlusInfinity"
| "fadd fmt MinusInfinity b = MinusInfinity"
| "fadd fmt a PlusInfinity = PlusInfinity"
| "fadd fmt a MinusInfinity = MinusInfinity"

definition fsub :: "format \<Rightarrow> fp \<Rightarrow> fp \<Rightarrow> fp" where
  "fsub fmt a b = fadd fmt a (fneg b)"

fun signed_infinity :: "bool \<Rightarrow> fp" where
  "signed_infinity True = MinusInfinity"
| "signed_infinity False = PlusInfinity"

fun is_negative :: "fp \<Rightarrow> bool" where
  "is_negative (Finite x) = (x < 0)"
| "is_negative MinusInfinity = True"
| "is_negative a = False"

fun fmul :: "format \<Rightarrow> fp \<Rightarrow> fp \<Rightarrow> fp" where
  "fmul fmt (Finite x) (Finite y) = fround fmt (x * y)"
| "fmul fmt NaN b = NaN"
| "fmul fmt a NaN = NaN"
| "fmul fmt (Finite x) b = (if x = 0 then NaN else signed_infinity ((x < 0) \<noteq> is_negative b))"
| "fmul fmt a (Finite y) = (if y = 0 then NaN else signed_infinity (is_negative a \<noteq> (y < 0)))"
| "fmul fmt a b = signed_infinity (is_negative a \<noteq> is_negative b)"

fun fdiv :: "format \<Rightarrow> fp \<Rightarrow> fp \<Rightarrow> fp" where
  "fdiv fmt (Finite x) (Finite y) =
     (if y = 0 then (if x = 0 then NaN else signed_infinity (x < 0))
      else fround fmt (x / y))"
| "fdiv fmt NaN b = NaN"
| "fdiv fmt a NaN = NaN"
| "fdiv fmt (Finite x) b = Finite 0"
| "fdiv fmt a (Finite y) = signed_infinity (is_negative a \<noteq> (y < 0))"
| "fdiv fmt a b = NaN"

fun fsqrt :: "format \<Rightarrow> fp \<Rightarrow> fp" where
  "fsqrt fmt (Finite x) = (if x < 0 then NaN else fround fmt (sqrt x))"
| "fsqrt fmt PlusInfinity = PlusInfinity"
| "fsqrt fmt a = NaN"

text \<open>The comparisons \<^verbatim>\<open><\<close>, \<^verbatim>\<open>==\<close>, \<^verbatim>\<open><=\<close> and \<^verbatim>\<open>>\<close>: each is false when an operand is a NaN.\<close>

fun flt :: "fp \<Rightarrow> fp \<Rightarrow> bool" where
  "flt (Finite x) (Finite y) = (x < y)"
| "flt NaN b = False"
| "flt a NaN = False"
| "flt PlusInfinity b = False"
| "flt a MinusInfinity = False"
| "flt a b = True"

fun feq :: "fp \<Rightarrow> fp \<Rightarrow> bool" where
  "feq (Finite x) (Finite y) = (x = y)"
| "feq PlusInfinity PlusInfinity = True"
| "feq MinusInfinity MinusInfinity = True"
| "feq a b = False"

definition fle :: "fp \<Rightarrow> fp \<Rightarrow> bool" where
  "fle a b = (flt a b \<or> feq a b)"

definition fgt :: "fp \<Rightarrow> fp \<Rightarrow> bool" where
  "fgt a b = flt b a"

fun is_finite :: "fp \<Rightarrow> bool" where
  "is_finite (Finite x) = True"
| "is_finite a = False"

text \<open>
  \<^verbatim>\<open>std::numeric_limits<CoordType>::epsilon()\<close>, the gap between 1 and the next number of
  the format, and the literal \<^verbatim>\<open>1e-8f\<close>, the single-precision number nearest to
  \<open>10\<^sup>-\<^sup>8\<close> in either build.
\<close>

definition epsilon :: "format \<Rightarrow> fp" where
  "epsilon fmt = Finite (pow2 (1 - int (precision fmt)))"

definition literal_1e_8f :: fp where
  "literal_1e_8f = fround binary32 (1 / 10 ^ 8)"

section \<open>Points (\<^verbatim>\<open>point3d.hpp\<close>)\<close>

text \<open>
  A point of three \<^verbatim>\<open>CoordType\<close> coordinates: \<^verbatim>\<open>Point3D\<close>, and \<^verbatim>\<open>Point3Dx\<close>, which adds
  operators to it. The member operators of \<^verbatim>\<open>Point3Dx\<close> with a point or a scalar on the
  right work coordinate by coordinate.
\<close>

datatype Point3D_fp = Point3D_fp (get_0: fp) (get_1: fp) (get_2: fp)

definition add_point_fp :: "format \<Rightarrow> Point3D_fp \<Rightarrow> Point3D_fp \<Rightarrow> Point3D_fp" where
  "add_point_fp fmt p other =
     Point3D_fp (fadd fmt (get_0 p) (get_0 other)) (fadd fmt (get_1 p) (get_1 other))
       (fadd fmt (get_2 p) (get_2 other))"

definition subtract_point_fp :: "format \<Rightarrow> Point3D_fp \<Rightarrow> Point3D_fp \<Rightarrow> Point3D_fp" where
  "subtract_point_fp fmt p other =
     Point3D_fp (fsub fmt (get_0 p) (get_0 other)) (fsub fmt (get_1 p) (get_1 other))
       (fsub fmt (get_2 p) (get_2 other))"

definition multiply_value_fp :: "format \<Rightarrow> Point3D_fp \<Rightarrow> fp \<Rightarrow> Point3D_fp" where
  "multiply_value_fp fmt p val =
     Point3D_fp (fmul fmt (get_0 p) val) (fmul fmt (get_1 p) val) (fmul fmt (get_2 p) val)"

text \<open>
  The free operators for a left operand that is not a \<^verbatim>\<open>Point3Dx\<close>:
  \<^verbatim>\<open>v - point\<close> is \<^verbatim>\<open>(point * -1.) + v\<close>, \<^verbatim>\<open>v * point\<close> is \<^verbatim>\<open>point * v\<close>, and
  \<^verbatim>\<open>v + point\<close> is \<^verbatim>\<open>point + v\<close>, written with \<open>add_point_fp\<close> where it occurs.
\<close>

definition subtract_from_fp :: "format \<Rightarrow> Point3D_fp \<Rightarrow> Point3D_fp \<Rightarrow> Point3D_fp" where
  "subtract_from_fp fmt v point = add_point_fp fmt (multiply_value_fp fmt point (Finite (- 1))) v"

definition value_multiply_fp :: "format \<Rightarrow> fp \<Rightarrow> Point3D_fp \<Rightarrow> Point3D_fp" where
  "value_multiply_fp fmt v point = multiply_value_fp fmt point v"

definition dot_fp :: "format \<Rightarrow> Point3D_fp \<Rightarrow> Point3D_fp \<Rightarrow> fp" where
  "dot_fp fmt p o2 =
     fadd fmt (fadd fmt (fmul fmt (get_0 p) (get_0 o2)) (fmul fmt (get_1 p) (get_1 o2)))
       (fmul fmt (get_2 p) (get_2 o2))"

definition dist_sq_fp :: "format \<Rightarrow> Point3D_fp \<Rightarrow> Point3D_fp \<Rightarrow> fp" where
  "dist_sq_fp fmt this b = (let p = subtract_point_fp fmt this b in dot_fp fmt p p)"

definition norm_sq_fp :: "format \<Rightarrow> Point3D_fp \<Rightarrow> fp" where
  "norm_sq_fp fmt p =
     fadd fmt (fadd fmt (fmul fmt (get_0 p) (get_0 p)) (fmul fmt (get_1 p) (get_1 p)))
       (fmul fmt (get_2 p) (get_2 p))"

definition norm_fp :: "format \<Rightarrow> Point3D_fp \<Rightarrow> fp" where
  "norm_fp fmt p = fsqrt fmt (norm_sq_fp fmt p)"

text \<open>
  \<^verbatim>\<open>Point3Dx::operator==\<close> and the free \<^verbatim>\<open>operator==\<close> on \<^verbatim>\<open>Point3D\<close> that calls it. The
  literal \<^verbatim>\<open>0.f\<close> is zero, and the product with \<^verbatim>\<open>1e-8f\<close> is taken in \<^verbatim>\<open>CoordType\<close>.
\<close>

definition Point3Dx_eq :: "format \<Rightarrow> Point3D_fp \<Rightarrow> Point3D_fp \<Rightarrow> bool" where
  "Point3Dx_eq fmt this rhs =
     (let dist2 = dist_sq_fp fmt this rhs
      in if feq dist2 (Finite 0) then True
         else flt dist2 (fmul fmt (norm_sq_fp fmt this) literal_1e_8f))"

definition Point3D_eq :: "format \<Rightarrow> Point3D_fp \<Rightarrow> Point3D_fp \<Rightarrow> bool" where
  "Point3D_eq fmt a b = Point3Dx_eq fmt a b"

definition finite_coordinates :: "Point3D_fp \<Rightarrow> bool" where
  "finite_coordinates p = (is_finite (get_0 p) \<and> is_finite (get_1 p) \<and> is_finite (get_2 p))"

subsection \<open>Points in exact arithmetic\<close>

text \<open>
  The same operators with every operation exact, on real coordinates.
  \<^verbatim>\<open>detail::distance_segment_segment\<close> is followed in this reading; it is evaluated
  below at an input whose coordinates and computed values single precision holds
  exactly.
\<close>

type_synonym CoordType = real

datatype Point3D = Point3D (get0: CoordType) (get1: CoordType) (get2: CoordType)

definition add_point :: "Point3D \<Rightarrow> Point3D \<Rightarrow> Point3D" where
  "add_point p other = Point3D (get0 p + get0 other) (get1 p + get1 other) (get2 p + get2 other)"

definition subtract_point :: "Point3D \<Rightarrow> Point3D \<Rightarrow> Point3D" where
  "subtract_point p other =
     Point3D (get0 p - get0 other) (get1 p - get1 other) (get2 p - get2 other)"

definition multiply_value :: "Point3D \<Rightarrow> CoordType \<Rightarrow> Point3D" where
  "multiply_value p val = Point3D (get0 p * val) (get1 p * val) (get2 p * val)"

definition value_multiply :: "CoordType \<Rightarrow> Point3D \<Rightarrow> Point3D" where
  "value_multiply v point = multiply_value point v"

definition dot :: "Point3D \<Rightarrow> Point3D \<Rightarrow> CoordType" where
  "dot p o2 = get0 p * get0 o2 + get1 p * get1 o2 + get2 p * get2 o2"

definition norm_sq :: "Point3D \<Rightarrow> CoordType" where
  "norm_sq p = get0 p * get0 p + get1 p * get1 p + get2 p * get2 p"

definition norm_point :: "Point3D \<Rightarrow> CoordType" where
  "norm_point p = sqrt (norm_sq p)"

section \<open>Shapes (\<^verbatim>\<open>detail/geometries.hpp\<close>)\<close>

record Sphere_fp =
  centroid :: Point3D_fp
  radius :: fp

record Cylinder_fp =
  p1 :: Point3D_fp
  p2 :: Point3D_fp
  radius :: fp

text \<open>
  \<^verbatim>\<open>clamp\<close>, with \<^verbatim>\<open>std::max(a, b)\<close>, which is \<^verbatim>\<open>b\<close> when \<^verbatim>\<open>a < b\<close> and \<^verbatim>\<open>a\<close> otherwise, and
  \<^verbatim>\<open>std::min(a, b)\<close>, which is \<^verbatim>\<open>b\<close> when \<^verbatim>\<open>b < a\<close> and \<^verbatim>\<open>a\<close> otherwise.
\<close>

definition std_max :: "fp \<Rightarrow> fp \<Rightarrow> fp" where
  "std_max a b = (if flt a b then b else a)"

definition std_min :: "fp \<Rightarrow> fp \<Rightarrow> fp" where
  "std_min a b = (if flt b a then b else a)"

definition clamp :: "fp \<Rightarrow> fp \<Rightarrow> fp \<Rightarrow> fp" where
  "clamp x low high = std_min (std_max x low) high"

definition project_point_onto_segment ::
  "format \<Rightarrow> Point3D_fp \<Rightarrow> Point3D_fp \<Rightarrow> Point3D_fp \<Rightarrow> Point3D_fp" where
  "project_point_onto_segment fmt base dir x =
     (let dir_dot_dir = norm_sq_fp fmt dir;
          x_dot_dir = dot_fp fmt (subtract_point_fp fmt x base) dir;
          x_rel = clamp (fdiv fmt x_dot_dir dir_dot_dir) (Finite 0) (Finite 1)
      in add_point_fp fmt base (value_multiply_fp fmt x_rel dir))"

text \<open>
  \<^verbatim>\<open>Sphere::intersects(Cylinder const&)\<close>. The differences \<^verbatim>\<open>centroid - closer_cap\<close>,
  \<^verbatim>\<open>centroid - p\<close>, \<^verbatim>\<open>closer_cap - d * ...\<close> and \<^verbatim>\<open>centroid - centroid_to_cap\<close> have a
  \<^verbatim>\<open>Point3D\<close> on the left and go through the free \<^verbatim>\<open>operator-\<close>; the sum
  \<^verbatim>\<open>c.p1 + (v_dot_u / v_dot_v) * v\<close> goes through the free \<^verbatim>\<open>operator+\<close>. The integers
  \<^verbatim>\<open>100\<close> and \<^verbatim>\<open>2\<close> are converted to \<^verbatim>\<open>CoordType\<close>.
\<close>

definition Sphere_intersects_Cylinder :: "format \<Rightarrow> Sphere_fp \<Rightarrow> Cylinder_fp \<Rightarrow> bool" where
  "Sphere_intersects_Cylinder fmt s c =
     (let u = subtract_point_fp fmt (Sphere_fp.centroid s) (Cylinder_fp.p1 c);
          v = subtract_point_fp fmt (Cylinder_fp.p2 c) (Cylinder_fp.p1 c);
          v_dot_u = dot_fp fmt v u;
          v_dot_v = norm_sq_fp fmt v;
          max_distance = fadd fmt (Sphere_fp.radius s) (Cylinder_fp.radius c);
          max_distance_sq = fmul fmt max_distance max_distance
      in if fle (Finite 0) v_dot_u \<and> fle v_dot_u v_dot_v
         then (let dist_sq = fsub fmt (norm_sq_fp fmt u)
                               (fdiv fmt (fmul fmt v_dot_u v_dot_u) v_dot_v)
               in fle dist_sq max_distance_sq)
         else (let closer_cap =
                     (if flt v_dot_u (Finite 0) then Cylinder_fp.p1 c else Cylinder_fp.p2 c)
               in if fgt (norm_sq_fp fmt (subtract_from_fp fmt (Sphere_fp.centroid s) closer_cap))
                       max_distance_sq
                  then False
                  else (let p = add_point_fp fmt
                                  (value_multiply_fp fmt (fdiv fmt v_dot_u v_dot_v) v)
                                  (Cylinder_fp.p1 c);
                            d = subtract_from_fp fmt (Sphere_fp.centroid s) p;
                            d_norm = norm_fp fmt d;
                            centroid_to_cap =
                              (if flt d_norm (fmul fmt (Finite 100) (epsilon fmt))
                               then closer_cap
                               else project_point_onto_segment fmt
                                      (subtract_from_fp fmt closer_cap
                                         (multiply_value_fp fmt d
                                            (fdiv fmt (Cylinder_fp.radius c) d_norm)))
                                      (multiply_value_fp fmt d
                                         (fdiv fmt (fmul fmt (Finite 2) (Cylinder_fp.radius c))
                                            d_norm))
                                      (Sphere_fp.centroid s))
                        in fle (norm_sq_fp fmt
                                  (subtract_from_fp fmt (Sphere_fp.centroid s) centroid_to_cap))
                             (fmul fmt (Sphere_fp.radius s) (Sphere_fp.radius s)))))"

text \<open>
  A sphere of radius 1 whose centre \<open>(2, 2\<^sup>-\<^sup>1\<^sup>7, 0)\<close> lies beyond the cap at \<open>(1, 0, 0)\<close> of
  a cylinder of radius 1 along the first axis, at a distance of \<open>2\<^sup>-\<^sup>1\<^sup>7\<close> from the axis.
\<close>

definition sphere_beyond_cap :: Sphere_fp where
  "sphere_beyond_cap =
     \<lparr>Sphere_fp.centroid = Point3D_fp (Finite 2) (Finite (1 / 2 ^ 17)) (Finite 0),
      Sphere_fp.radius = Finite 1\<rparr>"

definition unit_cylinder :: Cylinder_fp where
  "unit_cylinder =
     \<lparr>Cylinder_fp.p1 = Point3D_fp (Finite 0) (Finite 0) (Finite 0),
      Cylinder_fp.p2 = Point3D_fp (Finite 1) (Finite 0) (Finite 0),
      Cylinder_fp.radius = Finite 1\<rparr>"

subsection \<open>Cylinders in exact arithmetic\<close>

record Cylinder =
  p1 :: Point3D
  p2 :: Point3D
  radius :: CoordType

text \<open>
  \<^verbatim>\<open>detail::distance_segment_segment\<close>. The two blocks of assignments to \<^verbatim>\<open>sN\<close>, \<^verbatim>\<open>sD\<close>,
  \<^verbatim>\<open>tN\<close>, \<^verbatim>\<open>tD\<close> are the two tuple bindings; \<^verbatim>\<open>abs\<close> is the absolute value of a
  \<^verbatim>\<open>CoordType\<close>. Each division is reached only with a numerator of magnitude at least
  \<^verbatim>\<open>EPSILON\<close>, which excludes a zero divisor.
\<close>

definition distance_segment_segment ::
  "Point3D \<Rightarrow> Point3D \<Rightarrow> Point3D \<Rightarrow> Point3D \<Rightarrow> CoordType" where
  "distance_segment_segment s1_0 s1_1 s2_0 s2_1 =
     (let u = subtract_point s1_1 s1_0;
          v = subtract_point s2_1 s2_0;
          w = subtract_point s1_0 s2_0;
          a = dot u u;
          b = dot u v;
          c = dot v v;
          d = dot u w;
          e = dot v w;
          D = a * c - b * b;
          EPSILON = 1 / 10 ^ 6;
          (sN, sD, tN, tD) =
            (if D < EPSILON then (0, 1, e, c)
             else (let sN = b * e - c * d; tN = a * e - b * d
                   in if sN < 0 then (0, D, e, c)
                      else if sN > D then (D, D, e + b, c)
                      else (sN, D, tN, D)));
          (sN, sD, tN) =
            (if tN < 0
             then (if - d < 0 then (0, sD, 0)
                   else if - d > a then (sD, sD, 0)
                   else (- d, a, 0))
             else if tN > tD
             then (if - d + b < 0 then (0, sD, tD)
                   else if - d + b > a then (sD, sD, tD)
                   else (- d + b, a, tD))
             else (sN, sD, tN));
          sc = (if \<bar>sN\<bar> < EPSILON then 0 else sN / sD);
          tc = (if \<bar>tN\<bar> < EPSILON then 0 else tN / tD);
          dP = subtract_point (add_point w (value_multiply sc u)) (value_multiply tc v)
      in norm_point dP)"


definition Cylinder_intersects_Cylinder :: "Cylinder \<Rightarrow> Cylinder \<Rightarrow> bool" where
  "Cylinder_intersects_Cylinder this c =
     (let min_dist = distance_segment_segment (p1 this) (p2 this) (p1 c) (p2 c)
      in min_dist \<le> Cylinder.radius this + Cylinder.radius c)"

section \<open>Voxel grid (\<^verbatim>\<open>detail/index_grid.hpp\<close>)\<close>








section \<open>Two-level sort tile recursion (\<^verbatim>\<open>detail/distributed_sort_tile_recursion.hpp\<close>)\<close>

text \<open>
  Modelled from the spec: \<^verbatim>\<open>is_power_of_two\<close>, \<^verbatim>\<open>int_log2\<close> and \<^verbatim>\<open>int_pow2\<close> are declared
  in \<^verbatim>\<open>util.hpp\<close>, which is not among the sources. \<open>int_log2\<close> is the integer logarithm
  to base two, by halving; \<open>int_pow2 k\<close> is the \<open>k\<close>-th power of two.
\<close>

function int_log2 :: "int \<Rightarrow> int" where
  "int_log2 n = (if n \<le> 1 then 0 else 1 + int_log2 (n div 2))"
  by pat_completeness auto
termination
  by (relation "measure nat") auto

definition int_pow2 :: "int \<Rightarrow> int" where
  "int_pow2 k = 2 ^ nat k"

definition is_power_of_two :: "int \<Rightarrow> bool" where
  "is_power_of_two n = (0 < n \<and> int_pow2 (int_log2 n) = n)"

text \<open>
  The loop \<^verbatim>\<open>for (int k = 0; k < log2_n; ++k) dist[k % 3] += 1\<close> of
  \<^verbatim>\<open>rank_distribution\<close>, started at \<open>k\<close>.
\<close>

function rank_distribution_loop :: "int \<Rightarrow> int \<Rightarrow> int list \<Rightarrow> int list" where
  "rank_distribution_loop k log2_n distr =
     (if k < log2_n
      then rank_distribution_loop (k + 1) log2_n
             (distr[nat (k mod 3) := distr ! nat (k mod 3) + 1])
      else distr)"
  by pat_completeness auto
termination
  by (relation "measure (\<lambda>(k, log2_n, distr). nat (log2_n - k))") auto

text \<open>
  \<^verbatim>\<open>rank_distribution\<close>. The array \<^verbatim>\<open>dist\<close> is the list \<open>distr\<close> of three numbers. A failed
  \<^verbatim>\<open>assert\<close> aborts: the result \<open>None\<close>. The numbers are of type \<^verbatim>\<open>int\<close>; for a
  communicator size up to \<open>2\<^sup>3\<^sup>0\<close>, the largest power of two of that type, no
  operation leaves its range.
\<close>

definition rank_distribution :: "int \<Rightarrow> int list option" where
  "rank_distribution comm_size =
     (if \<not> is_power_of_two comm_size then None
      else (let distr = [0, 0, 0];
                log2_n = int_log2 comm_size;
                distr = rank_distribution_loop 0 log2_n distr;
                distr = map int_pow2 distr
            in if distr ! 0 * distr ! 1 * distr ! 2 = comm_size then Some distr else None))"

text \<open>
  \<^verbatim>\<open>distributed_partition\<close> calls into code that is not among the sources: the
  message-passing wrappers (\<^verbatim>\<open>mpi::size\<close>, \<^verbatim>\<open>mpi::rank\<close>, \<^verbatim>\<open>mpi::comm_split\<close>, the
  gather), \<^verbatim>\<open>util::check_signals\<close>, the distributed sorter, the serial sort tile
  recursion with its parameters, and the storage. They are the fields of a record of
  collaborators; one that can throw returns its exception. A subtree is the list of its
  elements, a bounding box entry the pair of its key and its number of elements.
\<close>

record ('v, 'c, 'x) collaborators =
  mpi_size :: "'c \<Rightarrow> nat"
  mpi_rank :: "'c \<Rightarrow> nat"
  mpi_comm_split :: "'c \<Rightarrow> nat \<Rightarrow> nat \<Rightarrow> 'c"
  signal_pending :: "nat \<Rightarrow> 'x option"
  sorter :: "nat \<Rightarrow> 'c \<Rightarrow> 'v list \<Rightarrow> 'x + 'v list"
  n_ranks_in_subslice :: "nat \<Rightarrow> nat"
  serial_sort_tile_recursion :: "'v list \<Rightarrow> 'v list"
  n_parts :: "nat \<Rightarrow> nat"
  partition_boundaries :: "nat \<Rightarrow> nat \<Rightarrow> nat"
  storage_save_subtree :: "'v list \<Rightarrow> nat \<Rightarrow> 'x option"
  gatherv :: "'c \<Rightarrow> (nat \<times> nat) list \<Rightarrow> 'x + (nat \<times> nat) list"
  storage_save_top_tree :: "(nat \<times> nat) list \<Rightarrow> 'x option"

text \<open>
  What a run leaves behind: the collective and storage operations it performed, in
  order.
\<close>

datatype 'v effect =
    sort_and_balance nat
  | comm_split nat nat
  | save_subtree nat "'v list"
  | gather "(nat \<times> nat) list"
  | save_top_tree "(nat \<times> nat) list"

text \<open>
  The state a run works on: the vector \<^verbatim>\<open>values\<close> (passed by reference, the field \<open>vals\<close>), the local
  \<^verbatim>\<open>local_bounding_boxes\<close> and \<^verbatim>\<open>bounding_boxes\<close>, the effects so far, and the number
  of signal checks so far.
\<close>

record 'v world =
  vals :: "'v list"
  local_bounding_boxes :: "(nat \<times> nat) list"
  bounding_boxes :: "(nat \<times> nat) list"
  effects :: "'v effect list"
  polls :: nat

type_synonym ('v, 'x) outcome = "'x exception option \<times> 'v world"

definition and_then ::
  "('v, 'x) outcome \<Rightarrow> ('v world \<Rightarrow> ('v, 'x) outcome) \<Rightarrow> ('v, 'x) outcome" where
  "and_then r f = (case r of (Some e, w) \<Rightarrow> (Some e, w) | (None, w) \<Rightarrow> f w)"

definition check_signals :: "('v, 'c, 'x) collaborators \<Rightarrow> 'v world \<Rightarrow> ('v, 'x) outcome" where
  "check_signals K w =
     (case signal_pending K (polls w) of
        Some x \<Rightarrow> (Some (foreign x), w\<lparr>polls := Suc (polls w)\<rparr>)
      | None \<Rightarrow> (None, w\<lparr>polls := Suc (polls w)\<rparr>))"

definition sort_and_balance_step ::
  "('v, 'c, 'x) collaborators \<Rightarrow> nat \<Rightarrow> 'c \<Rightarrow> 'v world \<Rightarrow> ('v, 'x) outcome" where
  "sort_and_balance_step K dimen mpi_comm w =
     (case sorter K dimen mpi_comm (vals w) of
        Inl x \<Rightarrow> (Some (foreign x), w)
      | Inr vs \<Rightarrow> (None, w\<lparr>vals := vs, effects := effects w @ [sort_and_balance dimen]\<rparr>))"

text \<open>
  \<^verbatim>\<open>DistributedSortTileRecursion<Value, GetCoordinate, dimen>::apply\<close>. The template is
  instantiated for \<^verbatim>\<open>dim\<close> 0, 1 and 2 (the argument \<open>dimen\<close>), and returns after the sort
  when it is 2.
\<close>

function DistributedSortTileRecursion_apply ::
  "('v, 'c, 'x) collaborators \<Rightarrow> nat \<Rightarrow> 'c \<Rightarrow> 'v world \<Rightarrow> ('v, 'x) outcome" where
  "DistributedSortTileRecursion_apply K dimen mpi_comm w =
     (case check_signals K w of
        (Some e, w1) \<Rightarrow> (Some e, w1)
      | (None, w1) \<Rightarrow>
          (case sort_and_balance_step K dimen mpi_comm w1 of
             (Some e, w2) \<Rightarrow> (Some e, w2)
           | (None, w2) \<Rightarrow>
               if 2 \<le> dimen then (None, w2)
               else (let k_rank_in_slice = mpi_rank K mpi_comm;
                         color = k_rank_in_slice div n_ranks_in_subslice K dimen;
                         sub_comm = mpi_comm_split K mpi_comm color k_rank_in_slice;
                         w3 = w2\<lparr>effects := effects w2 @ [comm_split color k_rank_in_slice]\<rparr>
                     in DistributedSortTileRecursion_apply K (dimen + 1) sub_comm w3)))"
  by pat_completeness auto
termination
  by (relation "measure (\<lambda>(K, dimen, mpi_comm, w). 3 - dimen)") auto

definition distributed_sort_tile_recursion ::
  "('v, 'c, 'x) collaborators \<Rightarrow> 'c \<Rightarrow> 'v world \<Rightarrow> ('v, 'x) outcome" where
  "distributed_sort_tile_recursion K mpi_comm w = DistributedSortTileRecursion_apply K 0 mpi_comm w"

text \<open>
  The loop over the serial parts in \<^verbatim>\<open>distributed_partition\<close>, started at \<open>k\<close>: a signal
  check, the subtree of the elements between two boundaries, its save under
  \<^verbatim>\<open>k_part\<close>, and its entry in \<^verbatim>\<open>local_bounding_boxes\<close>.
\<close>

function subtree_loop ::
  "('v, 'c, 'x) collaborators \<Rightarrow> nat \<Rightarrow> nat \<Rightarrow> nat \<Rightarrow> 'v world \<Rightarrow> ('v, 'x) outcome" where
  "subtree_loop K rank n_serial_parts k w =
     (if k < n_serial_parts
      then (case check_signals K w of
              (Some e, w1) \<Rightarrow> (Some e, w1)
            | (None, w1) \<Rightarrow>
                (let lo = partition_boundaries K (length (vals w1)) k;
                     hi = partition_boundaries K (length (vals w1)) (k + 1);
                     subtree = take (hi - lo) (drop lo (vals w1));
                     k_part = rank * n_serial_parts + k
                 in (case storage_save_subtree K subtree k_part of
                       Some x \<Rightarrow> (Some (foreign x), w1)
                     | None \<Rightarrow>
                         subtree_loop K rank n_serial_parts (k + 1)
                           (w1\<lparr>effects := effects w1 @ [save_subtree k_part subtree],
                               local_bounding_boxes :=
                                 local_bounding_boxes w1 @ [(k_part, length subtree)]\<rparr>))))
      else (None, w))"
  by pat_completeness auto
termination
  by (relation "measure (\<lambda>(K, rank, n_serial_parts, k, w). n_serial_parts - k)") auto

definition gather_bounding_boxes ::
  "('v, 'c, 'x) collaborators \<Rightarrow> 'c \<Rightarrow> 'v world \<Rightarrow> ('v, 'x) outcome" where
  "gather_bounding_boxes K comm w =
     (case gatherv K comm (local_bounding_boxes w) of
        Inl x \<Rightarrow> (Some (foreign x), w)
      | Inr boxes \<Rightarrow>
          (None, w\<lparr>bounding_boxes := boxes,
                   effects := effects w @ [gather (local_bounding_boxes w)]\<rparr>))"

definition save_top_tree_step ::
  "('v, 'c, 'x) collaborators \<Rightarrow> 'v world \<Rightarrow> ('v, 'x) outcome" where
  "save_top_tree_step K w =
     (case storage_save_top_tree K (bounding_boxes w) of
        Some x \<Rightarrow> (Some (foreign x), w)
      | None \<Rightarrow> (None, w\<lparr>effects := effects w @ [save_top_tree (bounding_boxes w)]\<rparr>))"

text \<open>
  \<^verbatim>\<open>distributed_partition\<close>. The size of a communicator is a positive \<^verbatim>\<open>int\<close>, so the
  product \<^verbatim>\<open>10ul * mpi::size(comm)\<close> stays far below the range of \<^verbatim>\<open>unsigned long\<close>
  and is the product of natural numbers.
\<close>

definition distributed_partition ::
  "('v, 'c, 'x) collaborators \<Rightarrow> 'c \<Rightarrow> 'v world \<Rightarrow> ('v, 'x) outcome" where
  "distributed_partition K comm w =
     (if length (vals w) < 10 * mpi_size K comm
      then (Some (runtime_error ''Too few elements.''), w)
      else and_then (distributed_sort_tile_recursion K comm w) (\<lambda>w1.
             (let w2 = w1\<lparr>vals := serial_sort_tile_recursion K (vals w1)\<rparr>;
                  rank = mpi_rank K comm;
                  n_serial_parts = n_parts K (length (vals w1))
              in and_then (subtree_loop K rank n_serial_parts 0
                             (w2\<lparr>local_bounding_boxes := []\<rparr>)) (\<lambda>w3.
                 and_then (check_signals K w3) (\<lambda>w4.
                 and_then (gather_bounding_boxes K comm w4) (\<lambda>w5.
                   if rank = 0 then save_top_tree_step K w5 else (None, w5)))))))"

text \<open>The error kind \<^verbatim>\<open>InsufficientElements\<close>: the exception of the first check.\<close>

definition InsufficientElements :: "'x exception \<Rightarrow> bool" where
  "InsufficientElements e = (e = runtime_error ''Too few elements.'')"

text \<open>
  A small configuration of the collaborators: a communicator of two ranks seen from
  rank 0, no pending signal, a sorter and a serial sort that leave the local vector as
  it is, one serial part spanning the vector, and a storage that never fails.
\<close>

definition two_ranks :: "(nat, unit, unit) collaborators" where
  "two_ranks =
     \<lparr>mpi_size = (\<lambda>c. 2),
      mpi_rank = (\<lambda>c. 0),
      mpi_comm_split = (\<lambda>c color key. c),
      signal_pending = (\<lambda>k. None),
      sorter = (\<lambda>dimen c vs. Inr vs),
      n_ranks_in_subslice = (\<lambda>dimen. 1),
      serial_sort_tile_recursion = (\<lambda>vs. vs),
      n_parts = (\<lambda>n. 1),
      partition_boundaries = (\<lambda>n k. if k = 0 then 0 else n),
      storage_save_subtree = (\<lambda>subtree k_part. None),
      gatherv = (\<lambda>c boxes. Inr boxes),
      storage_save_top_tree = (\<lambda>boxes. None)\<rparr>"

definition three_values :: "nat world" where
  "three_values =
     \<lparr>vals = [1, 2, 3], local_bounding_boxes = [], bounding_boxes = [], effects = [],
      polls = 0\<rparr>"

declare int_log2.simps [simp del]
declare rank_distribution_loop.simps [simp del]
declare DistributedSortTileRecursion_apply.simps [simp del]
declare subtree_loop.simps [simp del]

section \<open>Properties of the identifiers\<close>

lemma mask_bits_eq_mask: "mask_bits n = mask n"
  by (simp add: mask_bits_def mask_eq_decr_exp)

lemma and_not_mask_zero_iff:
  "((w::'a::len word) AND NOT (mask n) = 0) = (take_bit n w = w)"
  by (auto simp add: bit_eq_iff bit_simps)

lemma safe_iff: "n < LENGTH('a) \<Longrightarrow> ((w::'a::len word) AND NOT (mask n) = 0) = (w < 2 ^ n)"
  by (simp add: and_not_mask_zero_iff take_bit_eq_mask mask_eq_iff_w2p word_size)

lemma gid_safe: "is_gid_safe g = (g < 2 ^ 36)"
  unfolding is_gid_safe_def mask_bits_eq_mask N_GID_BITS_def N_TOTAL_BITS_def N_SEGMENT_BITS_def N_SECTION_BITS_def
  by (simp add: safe_iff)

lemma section_safe: "is_section_id_safe s = (s < 2 ^ 14)"
  unfolding is_section_id_safe_def mask_bits_eq_mask N_SECTION_BITS_def
  by (simp add: safe_iff)

lemma segment_safe: "is_segment_id_safe s = (s < 2 ^ 14)"
  unfolding is_segment_id_safe_def mask_bits_eq_mask N_SEGMENT_BITS_def
  by (simp add: safe_iff)

lemma upper_bits: "(w::'a::len word) < 2 ^ n \<Longrightarrow> n < LENGTH('a) \<Longrightarrow> bit w k \<Longrightarrow> k < n"
proof -
  assume a: "w < 2 ^ n" "n < LENGTH('a)" "bit w k"
  then have "take_bit n w = w" by (simp add: take_bit_eq_mask mask_eq_iff_w2p word_size)
  with a(3) have "bit (take_bit n w) k" by (simp only:)
  then show ?thesis by (simp only: bit_take_bit_iff)
qed

lemma packed_or:
  assumes "(g::64 word) < 2 ^ 36" "(s::32 word) < 2 ^ 14" "(t::32 word) < 2 ^ 14"
  shows "push_bit 28 g + ucast (push_bit 14 s) + ucast t
       = push_bit 28 g OR (ucast (push_bit 14 s) OR (ucast t :: 64 word))"
proof -
  have s: "\<And>k. bit s k \<Longrightarrow> k < 14" using upper_bits[OF assms(2)] by simp
  have t: "\<And>k. bit t k \<Longrightarrow> k < 14" using upper_bits[OF assms(3)] by simp
  have 1: "(ucast (push_bit 14 s) :: 64 word) + ucast t = ucast (push_bit 14 s) OR ucast t"
    by (rule disjunctive_add) (auto simp add: bit_simps dest: t)
  have 2: "push_bit 28 g + (ucast (push_bit 14 s) OR (ucast t :: 64 word))
     = push_bit 28 g OR (ucast (push_bit 14 s) OR (ucast t :: 64 word))"
    by (rule disjunctive_add) (auto simp add: bit_simps dest: s t)
  show ?thesis using 1 2 by (simp add: add.assoc)
qed

lemma roundtrip_gid:
  assumes "(g::64 word) < 2 ^ 36" "(s::32 word) < 2 ^ 14" "(t::32 word) < 2 ^ 14"
  shows "drop_bit 28 (push_bit 28 g + ucast (push_bit 14 s) + ucast t) = g"
proof -
  have g: "\<And>k. bit g k \<Longrightarrow> k < 36" using upper_bits[OF assms(1)] by simp
  have s: "\<And>k. bit s k \<Longrightarrow> k < 14" using upper_bits[OF assms(2)] by simp
  have t: "\<And>k. bit t k \<Longrightarrow> k < 14" using upper_bits[OF assms(3)] by simp
  show ?thesis
    unfolding packed_or[OF assms]
    by (rule bit_word_eqI) (auto simp add: bit_simps dest: g s t)
qed

lemma roundtrip_seg:
  assumes "(g::64 word) < 2 ^ 36" "(s::32 word) < 2 ^ 14" "(t::32 word) < 2 ^ 14"
  shows "(ucast ((push_bit 28 g + ucast (push_bit 14 s) + ucast t) AND (mask 14 :: 64 word)) :: 32 word) = t"
proof -
  have t: "\<And>k. bit t k \<Longrightarrow> k < 14" using upper_bits[OF assms(3)] by simp
  show ?thesis
    unfolding packed_or[OF assms]
    by (rule bit_word_eqI) (auto simp add: bit_simps dest: t)
qed

lemma roundtrip_sec:
  assumes "(g::64 word) < 2 ^ 36" "(s::32 word) < 2 ^ 14" "(t::32 word) < 2 ^ 14"
  shows "(ucast (drop_bit 14 ((push_bit 28 g + ucast (push_bit 14 s) + ucast t) AND push_bit 14 (mask 14 :: 64 word))) :: 32 word) = s"
proof -
  have s: "\<And>k. bit s k \<Longrightarrow> k < 14" using upper_bits[OF assms(2)] by simp
  have t: "\<And>k. bit t k \<Longrightarrow> k < 14" using upper_bits[OF assms(3)] by simp
  show ?thesis
    unfolding packed_or[OF assms]
    by (rule bit_word_eqI) (auto simp add: bit_simps dest: s t)
qed

text \<open>
  C1. For every triple with \<open>gid < 2\<^sup>3\<^sup>6\<close>, \<open>section_id < 2\<^sup>1\<^sup>4\<close> and
  \<open>segment_id < 2\<^sup>1\<^sup>4\<close> the constructor of \<^verbatim>\<open>MorphPartId\<close> succeeds and the accessors
  \<^verbatim>\<open>gid()\<close>, \<^verbatim>\<open>section_id()\<close>, \<^verbatim>\<open>segment_id()\<close> return the three components; for
  every other triple it raises one of the \<^verbatim>\<open>InvalidIdentifier\<close> exceptions and no
  identifier is produced.
\<close>

theorem MorphPartId_roundtrip:
  "(g < 2 ^ 36 \<and> s < 2 ^ 14 \<and> t < 2 ^ 14 \<longrightarrow>
      (\<exists>m. MorphPartId g s t = (Inr m :: 'x exception + ShapeId)
           \<and> gid m = g \<and> section_id m = s \<and> segment_id m = t))
   \<and> (\<not> (g < 2 ^ 36 \<and> s < 2 ^ 14 \<and> t < 2 ^ 14) \<longrightarrow>
      (\<exists>e. MorphPartId g s t = (Inl e :: 'x exception + ShapeId) \<and> InvalidIdentifier e))"
proof (intro conjI impI)
  assume a: "g < 2 ^ 36 \<and> s < 2 ^ 14 \<and> t < 2 ^ 14"
  then have g: "g < 2 ^ 36" and s: "s < 2 ^ 14" and t: "t < 2 ^ 14"
    by (simp_all only:)
  have safe: "is_gid_safe g" "is_section_id_safe s" "is_segment_id_safe t"
    using g s t by (simp_all only: gid_safe section_safe segment_safe)
  let ?p = "push_bit 28 g + ucast (push_bit 14 s) + ucast t :: 64 word"
  have bits: "N_TOTAL_BITS = 28" "N_SEGMENT_BITS = 14" "N_SECTION_BITS = 14"
    by (simp_all add: N_TOTAL_BITS_def N_SEGMENT_BITS_def N_SECTION_BITS_def)
  have ctor: "MorphPartId g s t = (Inr \<lparr>id = ?p\<rparr> :: 'x exception + ShapeId)"
    using safe by (simp add: MorphPartId_def bits)
  have "gid \<lparr>id = ?p\<rparr> = g"
    by (simp only: gid_def bits ShapeId.select_convs roundtrip_gid [OF g s t])
  moreover have "section_id \<lparr>id = ?p\<rparr> = s"
    by (simp only: section_id_def integer_cast_def MASK_SECTION_BITS_def mask_bits_eq_mask
        bits ShapeId.select_convs roundtrip_sec [OF g s t])
  moreover have "segment_id \<lparr>id = ?p\<rparr> = t"
    by (simp only: segment_id_def integer_cast_def MASK_SEGMENT_BITS_def mask_bits_eq_mask
        bits ShapeId.select_convs roundtrip_seg [OF g s t])
  ultimately show "\<exists>m. MorphPartId g s t = (Inr m :: 'x exception + ShapeId)
           \<and> gid m = g \<and> section_id m = s \<and> segment_id m = t"
    using ctor by blast
next
  assume "\<not> (g < 2 ^ 36 \<and> s < 2 ^ 14 \<and> t < 2 ^ 14)"
  then have "\<not> (is_gid_safe g \<and> is_section_id_safe s \<and> is_segment_id_safe t)"
    by (simp add: gid_safe section_safe segment_safe)
  then show "\<exists>e. MorphPartId g s t = (Inl e :: 'x exception + ShapeId) \<and> InvalidIdentifier e"
    by (auto simp add: MorphPartId_def InvalidIdentifier_def Let_def)
qed

theorem MorphPartId_roundtrip_witness:
  "(\<exists>m. MorphPartId 5 3 7 = (Inr m :: unit exception + ShapeId)
        \<and> gid m = 5 \<and> section_id m = 3 \<and> segment_id m = 7)
   \<and> (\<exists>e. MorphPartId (2 ^ 36) 3 7 = (Inl e :: unit exception + ShapeId) \<and> InvalidIdentifier e)"
  using MorphPartId_roundtrip [of 5 3 7, where 'x = unit]
    MorphPartId_roundtrip [of "2 ^ 36" 3 7, where 'x = unit]
  by simp

text \<open>
  C10. A \<^verbatim>\<open>SynapseId\<close> built from an identifier alone has \<^verbatim>\<open>post_gid() == 0\<close> and
  \<^verbatim>\<open>pre_gid() == 0\<close>, and keeps the identifier, for every 64-bit value; the
  constructor is a total function with no failing branch.
\<close>

theorem SynapseId_default_gids:
  "post_gid (SynapseId_default i) = 0 \<and> pre_gid (SynapseId_default i) = 0
   \<and> id (SynapseId_default i) = i"
  by (simp add: SynapseId_default_def SynapseId_def post_gid_def pre_gid_def)


text \<open>
  C9. \<^verbatim>\<open>IndexedShape::serialize\<close> raises the \<^verbatim>\<open>FutureFormat\<close> exception when the
  structure version of the record exceeds \<^verbatim>\<open>SPATIAL_INDEX_STRUCT_VERSION\<close>, which is 2,
  and does not raise it when the version is at most 2, whatever the archive does.
\<close>

theorem IndexedShape_serialize_FutureFormat:
  "(\<exists>e. IndexedShape_serialize ar_IndexT ar_ShapeT ar version = Inl e \<and> FutureFormat e)
     = (2 < version)"
  by (auto simp add: IndexedShape_serialize_def FutureFormat_def
      SPATIAL_INDEX_STRUCT_VERSION_def split: sum.splits)

section \<open>Properties of the arithmetic\<close>

lemma pow2_powr: "pow2 k = 2 powr (real_of_int k)"
  by (simp add: pow2_def powr_real_of_int field_simps)

lemma pow2_pos: "0 < pow2 k"
  by (simp add: pow2_powr)

lemma pow2_mono: "a \<le> b \<Longrightarrow> pow2 a \<le> pow2 b"
  by (simp add: pow2_powr)

text \<open>
  The search for the exponent of the unit in the last place stops at \<open>q\<close> when
  \<open>\<bar>x\<bar> < 2\<^bsup>q + p\<^esup>\<close> and \<open>q\<close> is the least exponent or \<open>2\<^bsup>q - 1 + p\<^esup> \<le> \<bar>x\<bar>\<close>.
\<close>

lemma ulp_search_found:
  "q0 \<le> q \<Longrightarrow> q \<le> q0 + int n \<Longrightarrow> a < pow2 (q + int p)
   \<Longrightarrow> (q0 = q \<or> pow2 (q - 1 + int p) \<le> a) \<Longrightarrow> ulp_search n p q0 a = q"
proof (induction n arbitrary: q0)
  case 0
  then show ?case by simp
next
  case (Suc n)
  show ?case
  proof (cases "q0 = q")
    case True
    with Suc.prems show ?thesis by simp
  next
    case False
    with Suc.prems have lt: "q0 < q" and low: "pow2 (q - 1 + int p) \<le> a"
      by auto
    from lt have "pow2 (q0 + int p) \<le> pow2 (q - 1 + int p)"
      by (intro pow2_mono) simp
    with low have no: "\<not> a < pow2 (q0 + int p)"
      by simp
    have "ulp_search n p (q0 + 1) a = q"
    proof (rule Suc.IH)
      show "q0 + 1 \<le> q" using lt by simp
      show "q \<le> q0 + 1 + int n" using Suc.prems(2) by simp
      show "a < pow2 (q + int p)" by (rule Suc.prems(3))
      show "q0 + 1 = q \<or> pow2 (q - 1 + int p) \<le> a" using low by simp
    qed
    with no show ?thesis by simp
  qed
qed

lemma fround32:
  assumes "- 149 \<le> q" "q \<le> 105" "\<bar>x\<bar> < pow2 (q + 24)" "q = - 149 \<or> pow2 (q + 23) \<le> \<bar>x\<bar>"
  shows "fround binary32 x =
     (if pow2 128 \<le> \<bar>of_int (round_half_even (x / pow2 q)) * pow2 q\<bar>
      then (if 0 < x then PlusInfinity else MinusInfinity)
      else Finite (of_int (round_half_even (x / pow2 q)) * pow2 q))"
proof -
  have "ulp_search 254 24 (- 149) \<bar>x\<bar> = q"
  proof (rule ulp_search_found)
    show "- 149 \<le> q" by fact
    show "q \<le> - 149 + int 254" using assms(2) by simp
    show "\<bar>x\<bar> < pow2 (q + int 24)" using assms(3) by simp
    have "q - 1 + int 24 = q + 23" by simp
    then show "- 149 = q \<or> pow2 (q - 1 + int 24) \<le> \<bar>x\<bar>" using assms(4) by (simp only:) auto
  qed
  then have "ulp_exponent binary32 x = q"
    by (simp add: ulp_exponent_def binary32_def)
  then show ?thesis
    by (simp add: fround_def Let_def binary32_def)
qed

lemma ulp_search_zero: "ulp_search n p q 0 = q"
  by (cases n) (simp_all add: pow2_pos)

lemma fround_zero: "fround fmt 0 = Finite 0"
  using pow2_pos [of "emax fmt + 1"]
  by (simp add: fround_def ulp_exponent_def ulp_search_zero round_half_even_def Let_def)

text \<open>Single-precision roundings of the values that occur below.\<close>

lemma fround32_small:
  "fround binary32 0 = Finite 0"
  "fround binary32 1 = Finite 1"
  "fround binary32 2 = Finite 2"
  "fround binary32 4 = Finite 4"
  "fround binary32 (- 1) = Finite (- 1)"
  "fround binary32 (- 2) = Finite (- 2)"
  "fround binary32 (1 / 131072) = Finite (1 / 131072)"
  "fround binary32 (1 / 17179869184) = Finite (1 / 17179869184)"
  "fround binary32 (17179869185 / 17179869184) = Finite 1"
  "fround binary32 (25 / 2097152) = Finite (25 / 2097152)"
proof -
  show "fround binary32 0 = Finite 0"
    by (rule fround_zero)
  show "fround binary32 1 = Finite 1"
    by (subst fround32 [where q = "- 23"]) (simp_all add: pow2_def round_half_even_def Let_def)
  show "fround binary32 2 = Finite 2"
    by (subst fround32 [where q = "- 22"]) (simp_all add: pow2_def round_half_even_def Let_def)
  show "fround binary32 4 = Finite 4"
    by (subst fround32 [where q = "- 21"]) (simp_all add: pow2_def round_half_even_def Let_def)
  show "fround binary32 (- 1) = Finite (- 1)"
    by (subst fround32 [where q = "- 23"]) (simp_all add: pow2_def round_half_even_def Let_def)
  show "fround binary32 (- 2) = Finite (- 2)"
    by (subst fround32 [where q = "- 22"]) (simp_all add: pow2_def round_half_even_def Let_def)
  show "fround binary32 (1 / 131072) = Finite (1 / 131072)"
    by (subst fround32 [where q = "- 40"]) (simp_all add: pow2_def round_half_even_def Let_def)
  show "fround binary32 (1 / 17179869184) = Finite (1 / 17179869184)"
    by (subst fround32 [where q = "- 57"]) (simp_all add: pow2_def round_half_even_def Let_def)
  show "fround binary32 (17179869185 / 17179869184) = Finite 1"
    by (subst fround32 [where q = "- 23"]) (simp_all add: pow2_def round_half_even_def Let_def)
  show "fround binary32 (25 / 2097152) = Finite (25 / 2097152)"
    by (subst fround32 [where q = "- 40"]) (simp_all add: pow2_def round_half_even_def Let_def)
qed

lemma fround32_squares:
  "fround binary32 400040001 = Finite 400040000"
  "fround binary32 400040000 = Finite 400040000"
  "fround binary32 399960001 = Finite 399960000"
  "fround binary32 399960000 = Finite 399960000"
proof -
  show "fround binary32 400040001 = Finite 400040000"
    by (subst fround32 [where q = 5]) (simp_all add: pow2_def round_half_even_def Let_def)
  show "fround binary32 400040000 = Finite 400040000"
    by (subst fround32 [where q = 5]) (simp_all add: pow2_def round_half_even_def Let_def)
  show "fround binary32 399960001 = Finite 399960000"
    by (subst fround32 [where q = 5]) (simp_all add: pow2_def round_half_even_def Let_def)
  show "fround binary32 399960000 = Finite 399960000"
    by (subst fround32 [where q = 5]) (simp_all add: pow2_def round_half_even_def Let_def)
qed


lemma literal_1e_8f_value: "literal_1e_8f = Finite (11258999 / 1125899906842624)"
  unfolding literal_1e_8f_def
  by (subst fround32 [where q = "- 50"]) (simp_all add: pow2_def round_half_even_def Let_def)

section \<open>Properties of the points\<close>

lemmas point_ops = subtract_point_def add_point_def multiply_value_def value_multiply_def
  dot_def norm_sq_def norm_point_def

lemmas fp_point_ops = subtract_point_fp_def add_point_fp_def multiply_value_fp_def
  value_multiply_fp_def subtract_from_fp_def dot_fp_def norm_sq_fp_def norm_fp_def
  dist_sq_fp_def

lemma dist_sq_fp_self:
  assumes "finite_coordinates p"
  shows "dist_sq_fp fmt p p = Finite 0"
proof -
  obtain a b c where p: "p = Point3D_fp a b c" by (cases p)
  from assms p obtain x y z where "a = Finite x" "b = Finite y" "c = Finite z"
    by (cases a; cases b; cases c) (simp_all add: finite_coordinates_def)
  with p show ?thesis
    by (simp add: dist_sq_fp_def subtract_point_fp_def dot_fp_def fsub_def fround_zero Let_def)
qed

lemma norm_sq_fp_20001:
  "norm_sq_fp binary32 (Point3D_fp (Finite 20001) (Finite 0) (Finite 0)) = Finite 400040000"
  "norm_sq_fp binary32 (Point3D_fp (Finite 19999) (Finite 0) (Finite 0)) = Finite 399960000"
  by (simp_all add: norm_sq_fp_def fround32_squares fround32_small)

lemma tolerance_20001:
  "fmul binary32 (norm_sq_fp binary32 (Point3D_fp (Finite 20001) (Finite 0) (Finite 0)))
     literal_1e_8f = Finite (8389447 / 2097152)"
  apply (simp add: norm_sq_fp_20001 literal_1e_8f_value)
  apply (subst fround32 [where q = "- 21"])
      apply (simp_all add: pow2_def round_half_even_def Let_def)
  done

lemma tolerance_19999:
  "fmul binary32 (norm_sq_fp binary32 (Point3D_fp (Finite 19999) (Finite 0) (Finite 0)))
     literal_1e_8f = Finite (8387769 / 2097152)"
  apply (simp add: norm_sq_fp_20001 literal_1e_8f_value)
  apply (subst fround32 [where q = "- 22"])
      apply (simp_all add: pow2_def round_half_even_def Let_def)
  done

lemma dist_sq_fp_20001:
  "dist_sq_fp binary32 (Point3D_fp (Finite 20001) (Finite 0) (Finite 0))
     (Point3D_fp (Finite 19999) (Finite 0) (Finite 0)) = Finite 4"
  "dist_sq_fp binary32 (Point3D_fp (Finite 19999) (Finite 0) (Finite 0))
     (Point3D_fp (Finite 20001) (Finite 0) (Finite 0)) = Finite 4"
  by (simp_all add: dist_sq_fp_def subtract_point_fp_def dot_fp_def fsub_def fround32_small
      Let_def)

text \<open>
  C8, as the claim states it, fails. The tolerance of \<^verbatim>\<open>p == q\<close> is taken relative to
  the squared norm of the left operand only. In single precision
  \<open>(20001, 0, 0) == (19999, 0, 0)\<close> is true: the squared distance is 4, the squared norm
  \<open>400040001\<close> rounds to \<open>400040000\<close>, and its product with \<^verbatim>\<open>1e-8f\<close> rounds to
  \<open>8389447 / 2\<^sup>2\<^sup>1\<close>, above 4. In the other order \<open>(19999, 0, 0) == (20001, 0, 0)\<close> is
  false: the squared norm \<open>399960001\<close> rounds to \<open>399960000\<close>, and its product with
  \<^verbatim>\<open>1e-8f\<close> rounds to \<open>8387769 / 2\<^sup>2\<^sup>1\<close>, below 4.
\<close>

theorem Point3D_eq_not_symmetric_counterexample:
  "Point3D_eq binary32 (Point3D_fp (Finite 20001) (Finite 0) (Finite 0))
     (Point3D_fp (Finite 19999) (Finite 0) (Finite 0))
   \<and> \<not> Point3D_eq binary32 (Point3D_fp (Finite 19999) (Finite 0) (Finite 0))
         (Point3D_fp (Finite 20001) (Finite 0) (Finite 0))"
  by (simp add: Point3D_eq_def Point3Dx_eq_def Let_def dist_sq_fp_20001 tolerance_20001
      tolerance_19999)

text \<open>
  C8, amended. In either build \<^verbatim>\<open>p == q\<close> is true exactly when the squared distance of
  \<open>p\<close> and \<open>q\<close>, as \<^verbatim>\<open>dist_sq\<close> computes it with every operation rounded, compares equal
  to zero or is less than the rounded product of the computed squared norm of the left
  operand \<open>p\<close> with the literal \<^verbatim>\<open>1e-8f\<close>. The test is reflexive on the points whose
  coordinates are finite.
\<close>

theorem Point3D_eq_rounded_tolerance:
  "Point3D_eq fmt p q
     = (feq (dist_sq_fp fmt p q) (Finite 0)
        \<or> flt (dist_sq_fp fmt p q) (fmul fmt (norm_sq_fp fmt p) literal_1e_8f))
   \<and> (finite_coordinates p \<longrightarrow> Point3D_eq fmt p p)"
  by (auto simp add: Point3D_eq_def Point3Dx_eq_def Let_def dist_sq_fp_self)

theorem Point3D_eq_rounded_tolerance_witness:
  "finite_coordinates (Point3D_fp (Finite 20001) (Finite 0) (Finite 0))
   \<and> Point3D_eq binary32 (Point3D_fp (Finite 20001) (Finite 0) (Finite 0))
       (Point3D_fp (Finite 20001) (Finite 0) (Finite 0))"
proof -
  have "finite_coordinates (Point3D_fp (Finite 20001) (Finite 0) (Finite 0))"
    by (simp add: finite_coordinates_def)
  with Point3D_eq_rounded_tolerance [of binary32
      "Point3D_fp (Finite 20001) (Finite 0) (Finite 0)"
      "Point3D_fp (Finite 20001) (Finite 0) (Finite 0)"]
  show ?thesis by blast
qed

section \<open>Properties of the shapes\<close>

text \<open>
  C2 fails on the code. The cylinder from \<open>(0, 0, 0)\<close> to \<open>(1, 0, 0)\<close> and the cylinder
  from \<open>(1, 0, 0)\<close> to \<open>(1, 2\<^sup>-\<^sup>1\<^sup>1, 0)\<close>, both of radius \<open>1/8\<close>, share the point
  \<open>(1, 0, 0)\<close>. The axes are perpendicular, but \<open>D = 2\<^sup>-\<^sup>2\<^sup>2\<close> is below \<^verbatim>\<open>EPSILON\<close>, so
  the branch for almost parallel lines pins \<^verbatim>\<open>sN = 0\<close>. From the first cylinder the
  distance comes out as 1 and the test is false; from the second it comes out as 0 and
  the test is true. Every coordinate and every intermediate result is a dyadic number
  that single precision holds exactly.
\<close>

theorem Cylinder_intersects_Cylinder_asymmetric:
  "distance_segment_segment (Point3D 0 0 0) (Point3D 1 0 0)
       (Point3D 1 0 0) (Point3D 1 (1 / 2048) 0) = 1
   \<and> distance_segment_segment (Point3D 1 0 0) (Point3D 1 (1 / 2048) 0)
       (Point3D 0 0 0) (Point3D 1 0 0) = 0
   \<and> \<not> Cylinder_intersects_Cylinder
         \<lparr>p1 = Point3D 0 0 0, p2 = Point3D 1 0 0, radius = 1 / 8\<rparr>
         \<lparr>p1 = Point3D 1 0 0, p2 = Point3D 1 (1 / 2048) 0, radius = 1 / 8\<rparr>
   \<and> Cylinder_intersects_Cylinder
         \<lparr>p1 = Point3D 1 0 0, p2 = Point3D 1 (1 / 2048) 0, radius = 1 / 8\<rparr>
         \<lparr>p1 = Point3D 0 0 0, p2 = Point3D 1 0 0, radius = 1 / 8\<rparr>"
proof -
  have a: "distance_segment_segment (Point3D 0 0 0) (Point3D 1 0 0)
       (Point3D 1 0 0) (Point3D 1 (1 / 2048) 0) = 1"
    by (simp add: distance_segment_segment_def point_ops Let_def)
  have b: "distance_segment_segment (Point3D 1 0 0) (Point3D 1 (1 / 2048) 0)
       (Point3D 0 0 0) (Point3D 1 0 0) = 0"
    by (simp add: distance_segment_segment_def point_ops Let_def)
  show ?thesis
    by (simp add: Cylinder_intersects_Cylinder_def a b)
qed

lemma sqrt_2m34: "sqrt (1 / 17179869184) = 1 / 131072"
  by (rule real_sqrt_unique) (simp_all add: power2_eq_square)

lemma beyond_cap_steps:
  shows "subtract_point_fp binary32 (Point3D_fp (Finite 1) (Finite 0) (Finite 0))
           (Point3D_fp (Finite 0) (Finite 0) (Finite 0))
         = Point3D_fp (Finite 1) (Finite 0) (Finite 0)"
    and "subtract_point_fp binary32 (Point3D_fp (Finite 2) (Finite (1 / 131072)) (Finite 0))
           (Point3D_fp (Finite 0) (Finite 0) (Finite 0))
         = Point3D_fp (Finite 2) (Finite (1 / 131072)) (Finite 0)"
    and "dot_fp binary32 (Point3D_fp (Finite 1) (Finite 0) (Finite 0))
           (Point3D_fp (Finite 2) (Finite (1 / 131072)) (Finite 0)) = Finite 2"
    and "norm_sq_fp binary32 (Point3D_fp (Finite 1) (Finite 0) (Finite 0)) = Finite 1"
    and "subtract_from_fp binary32 (Point3D_fp (Finite 2) (Finite (1 / 131072)) (Finite 0))
           (Point3D_fp (Finite 1) (Finite 0) (Finite 0))
         = Point3D_fp (Finite 1) (Finite (1 / 131072)) (Finite 0)"
    and "norm_sq_fp binary32 (Point3D_fp (Finite 1) (Finite (1 / 131072)) (Finite 0)) = Finite 1"
    and "add_point_fp binary32
           (value_multiply_fp binary32 (fdiv binary32 (Finite 2) (Finite 1))
              (Point3D_fp (Finite 1) (Finite 0) (Finite 0)))
           (Point3D_fp (Finite 0) (Finite 0) (Finite 0))
         = Point3D_fp (Finite 2) (Finite 0) (Finite 0)"
    and "add_point_fp binary32
           (value_multiply_fp binary32 (Finite 2) (Point3D_fp (Finite 1) (Finite 0) (Finite 0)))
           (Point3D_fp (Finite 0) (Finite 0) (Finite 0))
         = Point3D_fp (Finite 2) (Finite 0) (Finite 0)"
    and "subtract_from_fp binary32 (Point3D_fp (Finite 2) (Finite (1 / 131072)) (Finite 0))
           (Point3D_fp (Finite 2) (Finite 0) (Finite 0))
         = Point3D_fp (Finite 0) (Finite (1 / 131072)) (Finite 0)"
    and "norm_fp binary32 (Point3D_fp (Finite 0) (Finite (1 / 131072)) (Finite 0))
         = Finite (1 / 131072)"
  by (simp_all add: fp_point_ops fsub_def fround32_small sqrt_2m34)

lemma hundred_epsilon32: "fmul binary32 (Finite 100) (epsilon binary32) = Finite (25 / 2097152)"
proof -
  have "precision binary32 = 24" by (simp add: binary32_def)
  then show ?thesis by (simp add: epsilon_def pow2_def fround32_small)
qed

lemma max_distance_sq_beyond_cap:
  "fmul binary32 (fadd binary32 (Finite 1) (Finite 1)) (fadd binary32 (Finite 1) (Finite 1))
   = Finite 4"
  by (simp add: fround32_small)

lemma beyond_cap_accepted: "Sphere_intersects_Cylinder binary32 sphere_beyond_cap unit_cylinder"
  by (simp add: Sphere_intersects_Cylinder_def Let_def sphere_beyond_cap_def unit_cylinder_def
      beyond_cap_steps hundred_epsilon32 fle_def fgt_def fround32_small)

lemma beyond_cap_exact_distance:
  "\<not> sqrt ((2 - 1)\<^sup>2 + (1 / 2 ^ 17 - 0)\<^sup>2 + (0 - 0)\<^sup>2) \<le> (1::real)"
proof -
  have "(1::real) < (2 - 1)\<^sup>2 + (1 / 2 ^ 17 - 0)\<^sup>2 + (0 - 0)\<^sup>2"
    by simp
  then have "sqrt 1 < sqrt ((2 - 1)\<^sup>2 + (1 / 2 ^ 17 - 0)\<^sup>2 + (0 - 0)\<^sup>2)"
    by (simp only: real_sqrt_less_iff)
  then show ?thesis by simp
qed

text \<open>
  C4, as the claim states it, fails in single precision. For the sphere of radius 1 at
  \<open>(2, 2\<^sup>-\<^sup>1\<^sup>7, 0)\<close> and the cylinder of radius 1 from \<open>(0, 0, 0)\<close> to \<open>(1, 0, 0)\<close> the
  axial projection is 2, outside \<open>[0, 1]\<close>; the squared distance to the cap at
  \<open>(1, 0, 0)\<close> is computed as 1, below the squared sum of the radii 4, so the quick
  rejection does not fire; the foot on the axis is \<open>(2, 0, 0)\<close> and the norm of \<open>d\<close> is
  \<open>2\<^sup>-\<^sup>1\<^sup>7\<close>, below \<open>100 \<epsilon> = 25 / 2\<^sup>2\<^sup>1\<close>. The predicate accepts, since the squared
  distance \<open>1 + 2\<^sup>-\<^sup>3\<^sup>4\<close> from the centre to the cap is rounded to 1, while the distance
  from the centre to the cap is above the radius 1.
\<close>

theorem Sphere_intersects_Cylinder_rounding_counterexample:
  "dot_fp binary32
     (subtract_point_fp binary32 (Cylinder_fp.p2 unit_cylinder) (Cylinder_fp.p1 unit_cylinder))
     (subtract_point_fp binary32 (Sphere_fp.centroid sphere_beyond_cap)
        (Cylinder_fp.p1 unit_cylinder)) = Finite 2
   \<and> norm_sq_fp binary32
       (subtract_point_fp binary32 (Cylinder_fp.p2 unit_cylinder) (Cylinder_fp.p1 unit_cylinder))
     = Finite 1
   \<and> norm_sq_fp binary32
       (subtract_from_fp binary32 (Sphere_fp.centroid sphere_beyond_cap)
          (Cylinder_fp.p2 unit_cylinder)) = Finite 1
   \<and> fmul binary32
       (fadd binary32 (Sphere_fp.radius sphere_beyond_cap) (Cylinder_fp.radius unit_cylinder))
       (fadd binary32 (Sphere_fp.radius sphere_beyond_cap) (Cylinder_fp.radius unit_cylinder))
     = Finite 4
   \<and> add_point_fp binary32
       (value_multiply_fp binary32 (fdiv binary32 (Finite 2) (Finite 1))
          (Point3D_fp (Finite 1) (Finite 0) (Finite 0)))
       (Cylinder_fp.p1 unit_cylinder) = Point3D_fp (Finite 2) (Finite 0) (Finite 0)
   \<and> norm_fp binary32
       (subtract_from_fp binary32 (Sphere_fp.centroid sphere_beyond_cap)
          (Point3D_fp (Finite 2) (Finite 0) (Finite 0))) = Finite (1 / 2 ^ 17)
   \<and> fmul binary32 (Finite 100) (epsilon binary32) = Finite (25 / 2 ^ 21)
   \<and> Sphere_intersects_Cylinder binary32 sphere_beyond_cap unit_cylinder
   \<and> \<not> sqrt ((2 - 1)\<^sup>2 + (1 / 2 ^ 17 - 0)\<^sup>2 + (0 - 0)\<^sup>2) \<le> (1::real)"
proof -
  have "dot_fp binary32
     (subtract_point_fp binary32 (Cylinder_fp.p2 unit_cylinder) (Cylinder_fp.p1 unit_cylinder))
     (subtract_point_fp binary32 (Sphere_fp.centroid sphere_beyond_cap)
        (Cylinder_fp.p1 unit_cylinder)) = Finite 2"
    by (simp add: sphere_beyond_cap_def unit_cylinder_def beyond_cap_steps)
  moreover have "norm_sq_fp binary32
       (subtract_point_fp binary32 (Cylinder_fp.p2 unit_cylinder) (Cylinder_fp.p1 unit_cylinder))
     = Finite 1"
    by (simp add: unit_cylinder_def beyond_cap_steps)
  moreover have "norm_sq_fp binary32
       (subtract_from_fp binary32 (Sphere_fp.centroid sphere_beyond_cap)
          (Cylinder_fp.p2 unit_cylinder)) = Finite 1"
    by (simp add: sphere_beyond_cap_def unit_cylinder_def beyond_cap_steps)
  moreover have "fmul binary32
       (fadd binary32 (Sphere_fp.radius sphere_beyond_cap) (Cylinder_fp.radius unit_cylinder))
       (fadd binary32 (Sphere_fp.radius sphere_beyond_cap) (Cylinder_fp.radius unit_cylinder))
     = Finite 4"
    by (simp add: sphere_beyond_cap_def unit_cylinder_def fround32_small)
  moreover have "add_point_fp binary32
       (value_multiply_fp binary32 (fdiv binary32 (Finite 2) (Finite 1))
          (Point3D_fp (Finite 1) (Finite 0) (Finite 0)))
       (Cylinder_fp.p1 unit_cylinder) = Point3D_fp (Finite 2) (Finite 0) (Finite 0)"
    by (simp add: unit_cylinder_def beyond_cap_steps fround32_small)
  moreover have "norm_fp binary32
       (subtract_from_fp binary32 (Sphere_fp.centroid sphere_beyond_cap)
          (Point3D_fp (Finite 2) (Finite 0) (Finite 0))) = Finite (1 / 2 ^ 17)"
    by (simp add: sphere_beyond_cap_def beyond_cap_steps)
  moreover have "fmul binary32 (Finite 100) (epsilon binary32) = Finite (25 / 2 ^ 21)"
    by (simp add: hundred_epsilon32)
  ultimately show ?thesis
    using beyond_cap_accepted beyond_cap_exact_distance by (simp only: simp_thms)
qed

text \<open>
  C4, amended. In \<^verbatim>\<open>Sphere::intersects(Cylinder)\<close>, in either build, let \<open>v\<close> be the axis,
  \<open>t = v \<cdot> u\<close> the axial projection and \<open>cap\<close> the closer end point, all as computed. When
  \<open>t\<close> does not lie in \<open>[0, v \<cdot> v]\<close>, the quick rejection does not fire, and the vector
  \<open>d\<close> from the computed foot on the axis to the centre of the sphere has a computed
  norm below \<open>100 \<epsilon>\<close>, the closest point of the cap is \<open>cap\<close> itself, with no projection
  and no division by the norm of \<open>d\<close>: the predicate accepts exactly when the squared
  distance from the centre to \<open>cap\<close>, computed with every operation rounded, is at most
  the rounded square of the radius of the sphere.
\<close>

theorem Sphere_intersects_Cylinder_near_axis:
  assumes v: "v = subtract_point_fp fmt (Cylinder_fp.p2 c) (Cylinder_fp.p1 c)"
    and t: "t = dot_fp fmt v (subtract_point_fp fmt (Sphere_fp.centroid s) (Cylinder_fp.p1 c))"
    and cap: "cap = (if flt t (Finite 0) then Cylinder_fp.p1 c else Cylinder_fp.p2 c)"
    and outside: "\<not> (fle (Finite 0) t \<and> fle t (norm_sq_fp fmt v))"
    and near: "\<not> fgt (norm_sq_fp fmt (subtract_from_fp fmt (Sphere_fp.centroid s) cap))
                    (fmul fmt (fadd fmt (Sphere_fp.radius s) (Cylinder_fp.radius c))
                       (fadd fmt (Sphere_fp.radius s) (Cylinder_fp.radius c)))"
    and d: "d = subtract_from_fp fmt (Sphere_fp.centroid s)
                  (add_point_fp fmt (value_multiply_fp fmt (fdiv fmt t (norm_sq_fp fmt v)) v)
                     (Cylinder_fp.p1 c))"
    and on_axis: "flt (norm_fp fmt d) (fmul fmt (Finite 100) (epsilon fmt))"
  shows "Sphere_intersects_Cylinder fmt s c
     = fle (norm_sq_fp fmt (subtract_from_fp fmt (Sphere_fp.centroid s) cap))
         (fmul fmt (Sphere_fp.radius s) (Sphere_fp.radius s))"
  unfolding Sphere_intersects_Cylinder_def Let_def
  unfolding v [symmetric] t [symmetric] cap [symmetric] d [symmetric]
  using outside near on_axis by auto

theorem Sphere_intersects_Cylinder_near_axis_witness:
  "\<not> (fle (Finite 0) (Finite 2)
        \<and> fle (Finite 2) (norm_sq_fp binary32 (Point3D_fp (Finite 1) (Finite 0) (Finite 0))))
   \<and> \<not> fgt (norm_sq_fp binary32
               (subtract_from_fp binary32 (Sphere_fp.centroid sphere_beyond_cap)
                  (Point3D_fp (Finite 1) (Finite 0) (Finite 0))))
            (fmul binary32
               (fadd binary32 (Sphere_fp.radius sphere_beyond_cap)
                  (Cylinder_fp.radius unit_cylinder))
               (fadd binary32 (Sphere_fp.radius sphere_beyond_cap)
                  (Cylinder_fp.radius unit_cylinder)))
   \<and> flt (norm_fp binary32 (Point3D_fp (Finite 0) (Finite (1 / 2 ^ 17)) (Finite 0)))
        (fmul binary32 (Finite 100) (epsilon binary32))
   \<and> Sphere_intersects_Cylinder binary32 sphere_beyond_cap unit_cylinder
   \<and> fle (norm_sq_fp binary32
            (subtract_from_fp binary32 (Sphere_fp.centroid sphere_beyond_cap)
               (Point3D_fp (Finite 1) (Finite 0) (Finite 0))))
        (fmul binary32 (Sphere_fp.radius sphere_beyond_cap)
           (Sphere_fp.radius sphere_beyond_cap))"
proof -
  have v: "Point3D_fp (Finite 1) (Finite 0) (Finite 0)
      = subtract_point_fp binary32 (Cylinder_fp.p2 unit_cylinder) (Cylinder_fp.p1 unit_cylinder)"
    by (simp add: unit_cylinder_def beyond_cap_steps)
  have t: "Finite 2
      = dot_fp binary32 (Point3D_fp (Finite 1) (Finite 0) (Finite 0))
          (subtract_point_fp binary32 (Sphere_fp.centroid sphere_beyond_cap)
             (Cylinder_fp.p1 unit_cylinder))"
    by (simp add: sphere_beyond_cap_def unit_cylinder_def beyond_cap_steps)
  have cap: "Point3D_fp (Finite 1) (Finite 0) (Finite 0)
      = (if flt (Finite 2) (Finite 0) then Cylinder_fp.p1 unit_cylinder
         else Cylinder_fp.p2 unit_cylinder)"
    by (simp add: unit_cylinder_def)
  have outside: "\<not> (fle (Finite 0) (Finite 2)
        \<and> fle (Finite 2) (norm_sq_fp binary32 (Point3D_fp (Finite 1) (Finite 0) (Finite 0))))"
    by (simp add: beyond_cap_steps fle_def)
  have near: "\<not> fgt (norm_sq_fp binary32
               (subtract_from_fp binary32 (Sphere_fp.centroid sphere_beyond_cap)
                  (Point3D_fp (Finite 1) (Finite 0) (Finite 0))))
            (fmul binary32
               (fadd binary32 (Sphere_fp.radius sphere_beyond_cap)
                  (Cylinder_fp.radius unit_cylinder))
               (fadd binary32 (Sphere_fp.radius sphere_beyond_cap)
                  (Cylinder_fp.radius unit_cylinder)))"
    by (simp add: sphere_beyond_cap_def unit_cylinder_def beyond_cap_steps fgt_def
        fround32_small)
  have d: "Point3D_fp (Finite 0) (Finite (1 / 2 ^ 17)) (Finite 0)
      = subtract_from_fp binary32 (Sphere_fp.centroid sphere_beyond_cap)
          (add_point_fp binary32
             (value_multiply_fp binary32
                (fdiv binary32 (Finite 2)
                   (norm_sq_fp binary32 (Point3D_fp (Finite 1) (Finite 0) (Finite 0))))
                (Point3D_fp (Finite 1) (Finite 0) (Finite 0)))
             (Cylinder_fp.p1 unit_cylinder))"
    by (simp add: sphere_beyond_cap_def unit_cylinder_def beyond_cap_steps fround32_small)
  have on_axis: "flt (norm_fp binary32 (Point3D_fp (Finite 0) (Finite (1 / 2 ^ 17)) (Finite 0)))
        (fmul binary32 (Finite 100) (epsilon binary32))"
    by (simp add: beyond_cap_steps hundred_epsilon32)
  have "Sphere_intersects_Cylinder binary32 sphere_beyond_cap unit_cylinder
     = fle (norm_sq_fp binary32
            (subtract_from_fp binary32 (Sphere_fp.centroid sphere_beyond_cap)
               (Point3D_fp (Finite 1) (Finite 0) (Finite 0))))
        (fmul binary32 (Sphere_fp.radius sphere_beyond_cap)
           (Sphere_fp.radius sphere_beyond_cap))"
    by (rule Sphere_intersects_Cylinder_near_axis [OF v t cap outside near d on_axis])
  moreover have "fle (norm_sq_fp binary32
            (subtract_from_fp binary32 (Sphere_fp.centroid sphere_beyond_cap)
               (Point3D_fp (Finite 1) (Finite 0) (Finite 0))))
        (fmul binary32 (Sphere_fp.radius sphere_beyond_cap)
           (Sphere_fp.radius sphere_beyond_cap))"
    by (simp add: sphere_beyond_cap_def beyond_cap_steps fle_def fround32_small)
  ultimately show ?thesis
    using outside near on_axis by (simp only: simp_thms)
qed

section \<open>Properties of the voxel grid\<close>




section \<open>Properties of the rank distribution\<close>

lemma int_log2_pow2: "int_log2 (2 ^ q) = int q"
proof (induction q)
  case 0
  show ?case by (subst int_log2.simps) simp
next
  case (Suc q)
  have "(1::int) \<le> 2 ^ q" by simp
  then have "\<not> (2::int) ^ Suc q \<le> 1" unfolding power_Suc by linarith
  then have "int_log2 (2 ^ Suc q) = 1 + int_log2 (2 ^ Suc q div 2)"
    by (subst int_log2.simps) (simp only: if_False)
  with Suc show ?case by simp
qed

lemma is_power_of_two_pow2: "is_power_of_two (2 ^ q)"
  by (simp add: is_power_of_two_def int_log2_pow2 int_pow2_def)

text \<open>The last round of the loop, taken off its end.\<close>

lemma rank_distribution_loop_last:
  "k \<le> n \<Longrightarrow> rank_distribution_loop k (n + 1) d =
     (let d' = rank_distribution_loop k n d in d'[nat (n mod 3) := d' ! nat (n mod 3) + 1])"
proof (induction k n d rule: rank_distribution_loop.induct)
  case (1 k n d)
  show ?case
  proof (cases "k < n")
    case True
    then have "k + 1 \<le> n" by simp
    from "1.IH" [OF True this] True show ?thesis
      by (subst rank_distribution_loop.simps, subst (2) rank_distribution_loop.simps) simp
  next
    case False
    with "1.prems" have "k = n" by simp
    then show ?thesis
      by (subst rank_distribution_loop.simps, subst (2) rank_distribution_loop.simps,
          subst rank_distribution_loop.simps) (simp add: Let_def)
  qed
qed

lemma rank_distribution_loop_3k1:
  assumes "rank_distribution_loop 0 (3 * int k) [0, 0, 0] = [a, b, c]"
  shows "rank_distribution_loop 0 (3 * int k + 1) [0, 0, 0] = [a + 1, b, c]"
proof -
  have m: "nat ((3 * int k) mod 3) = 0" by simp
  have "(0::int) \<le> 3 * int k" by simp
  from rank_distribution_loop_last [OF this, of "[0, 0, 0]"] show ?thesis
    unfolding assms Let_def m by simp
qed

lemma rank_distribution_loop_3k2:
  assumes "rank_distribution_loop 0 (3 * int k + 1) [0, 0, 0] = [a, b, c]"
  shows "rank_distribution_loop 0 (3 * int k + 2) [0, 0, 0] = [a, b + 1, c]"
proof -
  have m: "nat ((3 * int k + 1) mod 3) = 1" by simp
  have "(0::int) \<le> 3 * int k + 1" by simp
  from rank_distribution_loop_last [OF this, of "[0, 0, 0]"] show ?thesis
    unfolding assms Let_def m by (simp add: add.assoc)
qed

lemma rank_distribution_loop_3k3:
  assumes "rank_distribution_loop 0 (3 * int k + 2) [0, 0, 0] = [a, b, c]"
  shows "rank_distribution_loop 0 (3 * int (Suc k)) [0, 0, 0] = [a, b, c + 1]"
proof -
  have m: "nat ((3 * int k + 2) mod 3) = 2" by simp
  have e: "3 * int (Suc k) = 3 * int k + 2 + 1" by simp
  have "(0::int) \<le> 3 * int k + 2" by simp
  from rank_distribution_loop_last [OF this, of "[0, 0, 0]"] show ?thesis
    unfolding e assms Let_def m by simp
qed

lemma rank_distribution_loop_3k:
  "rank_distribution_loop 0 (3 * int k) [0, 0, 0] = [int k, int k, int k]"
proof (induction k)
  case 0
  show ?case by (subst rank_distribution_loop.simps) simp
next
  case (Suc k)
  from rank_distribution_loop_3k3 [OF rank_distribution_loop_3k2
        [OF rank_distribution_loop_3k1 [OF Suc]]]
  show ?case by (simp add: add.commute)
qed

lemma rank_distribution_loop_closed:
  "rank_distribution_loop 0 (int q) [0, 0, 0]
     = [int ((q + 2) div 3), int ((q + 1) div 3), int (q div 3)]"
proof -
  define k r where "k = q div 3" and "r = q mod 3"
  then have q: "q = 3 * k + r" and "r < 3"
    by simp_all
  have h: "(3 * k + c) div 3 = k + c div 3" for c
    by simp
  note k0 = rank_distribution_loop_3k [of k]
  note k1 = rank_distribution_loop_3k1 [OF k0]
  note k2 = rank_distribution_loop_3k2 [OF k1]
  from \<open>r < 3\<close> consider "r = 0" | "r = 1" | "r = 2"
    by linarith
  then show ?thesis
  proof cases
    case 1
    have "int q = 3 * int k" by (simp add: q 1)
    moreover have "(q + 2) div 3 = k" "(q + 1) div 3 = k" "q div 3 = k"
      using h [of 2] h [of 1] h [of 0] by (simp_all add: q 1)
    ultimately show ?thesis using k0 by (simp only:)
  next
    case 2
    have "int q = 3 * int k + 1" by (simp add: q 2)
    moreover have "(q + 2) div 3 = k + 1" "(q + 1) div 3 = k" "q div 3 = k"
      using h [of 3] h [of 2] h [of 1] by (simp_all add: q 2 add.assoc)
    ultimately show ?thesis using k1 by (simp only: of_nat_add of_nat_1)
  next
    case 3
    have "int q = 3 * int k + 2" by (simp add: q 3)
    moreover have "(q + 2) div 3 = k + 1" "(q + 1) div 3 = k + 1" "q div 3 = k"
      using h [of 4] h [of 3] h [of 2] by (simp_all add: q 3 add.assoc)
    ultimately show ?thesis using k2 by (simp only: of_nat_add of_nat_1)
  qed
qed

lemma ceiling_thirds:
  "nat \<lceil>real q / 3\<rceil> = (q + 2) div 3"
  "nat \<lceil>(real q - 1) / 3\<rceil> = (q + 1) div 3"
  "nat \<lceil>(real q - 2) / 3\<rceil> = q div 3"
proof -
  have 1: "real q / 3 = real_of_int (int q) / real_of_int 3" by simp
  have 2: "(real q - 1) / 3 = real_of_int (int q - 1) / real_of_int 3" by simp
  have 3: "(real q - 2) / 3 = real_of_int (int q - 2) / real_of_int 3" by simp
  show "nat \<lceil>real q / 3\<rceil> = (q + 2) div 3"
    unfolding 1 ceiling_divide_eq_div by arith
  show "nat \<lceil>(real q - 1) / 3\<rceil> = (q + 1) div 3"
    unfolding 2 ceiling_divide_eq_div by arith
  show "nat \<lceil>(real q - 2) / 3\<rceil> = q div 3"
    unfolding 3 ceiling_divide_eq_div by arith
qed

lemma thirds_sum: "(q + 2) div 3 + (q + 1) div 3 + q div 3 = (q::nat)"
proof -
  define k r where "k = q div 3" and "r = q mod 3"
  then have q: "q = 3 * k + r" and "r < 3"
    by simp_all
  have h: "(3 * k + c) div 3 = k + c div 3" for c
    by simp
  from \<open>r < 3\<close> consider "r = 0" | "r = 1" | "r = 2"
    by linarith
  then show ?thesis
  proof cases
    case 1
    with h [of 0] h [of 1] h [of 2] show ?thesis
      unfolding q by (simp add: add.assoc)
  next
    case 2
    with h [of 1] h [of 2] h [of 3] show ?thesis
      unfolding q by (simp add: add.assoc)
  next
    case 3
    with h [of 2] h [of 3] h [of 4] show ?thesis
      unfolding q by (simp add: add.assoc)
  qed
qed

text \<open>
  C5. For a communicator size \<open>R = 2\<^sup>q\<close> (with \<open>q \<le> 30\<close>, the range of \<^verbatim>\<open>int\<close>) both
  assertions of \<^verbatim>\<open>rank_distribution\<close> hold and the result is the triple
  \<open>(2\<^bsup>\<lceil>q/3\<rceil>\<^esup>, 2\<^bsup>\<lceil>(q-1)/3\<rceil>\<^esup>, 2\<^bsup>\<lceil>(q-2)/3\<rceil>\<^esup>)\<close>, whose product is \<open>R\<close>: the loop gives the
  \<open>k\<close>-th factor of two to the axis \<open>k mod 3\<close>, starting from x.
\<close>

theorem rank_distribution_power_of_two:
  assumes "q \<le> 30"
  shows "rank_distribution (2 ^ q)
           = Some [2 ^ nat \<lceil>real q / 3\<rceil>, 2 ^ nat \<lceil>(real q - 1) / 3\<rceil>,
                   2 ^ nat \<lceil>(real q - 2) / 3\<rceil>]
    \<and> (2::int) ^ nat \<lceil>real q / 3\<rceil> * 2 ^ nat \<lceil>(real q - 1) / 3\<rceil>
         * 2 ^ nat \<lceil>(real q - 2) / 3\<rceil> = 2 ^ q"
proof -
  have prod: "(2::int) ^ ((q + 2) div 3) * 2 ^ ((q + 1) div 3) * 2 ^ (q div 3) = 2 ^ q"
    by (simp only: power_add [symmetric] thirds_sum)
  have "rank_distribution (2 ^ q)
      = Some [2 ^ ((q + 2) div 3), 2 ^ ((q + 1) div 3), 2 ^ (q div 3)]"
    using prod
    by (simp add: rank_distribution_def is_power_of_two_pow2 int_log2_pow2
        rank_distribution_loop_closed int_pow2_def Let_def)
  with prod show ?thesis
    by (simp only: ceiling_thirds simp_thms)
qed

theorem rank_distribution_power_of_two_witness:
  "(4::nat) \<le> 30 \<and> rank_distribution 16 = Some [4, 2, 2] \<and> (4::int) * 2 * 2 = 16"
  using rank_distribution_power_of_two [of 4]
  by (simp add: ceiling_thirds)

section \<open>Properties of the distributed partition\<close>

text \<open>No step after the first check raises an exception of the sources' own.\<close>

lemma check_signals_foreign: "fst (check_signals K w) \<noteq> Some (runtime_error m)"
  by (simp add: check_signals_def split: option.splits)

lemma sort_and_balance_step_foreign:
  "fst (sort_and_balance_step K dimen c w) \<noteq> Some (runtime_error m)"
  by (simp add: sort_and_balance_step_def split: sum.splits)

lemma gather_bounding_boxes_foreign:
  "fst (gather_bounding_boxes K c w) \<noteq> Some (runtime_error m)"
  by (simp add: gather_bounding_boxes_def split: sum.splits)

lemma save_top_tree_step_foreign: "fst (save_top_tree_step K w) \<noteq> Some (runtime_error m)"
  by (simp add: save_top_tree_step_def split: option.splits)

lemma and_then_foreign:
  assumes "fst r \<noteq> Some (runtime_error m)" "\<And>w. fst (f w) \<noteq> Some (runtime_error m)"
  shows "fst (and_then r f) \<noteq> Some (runtime_error m)"
  using assms by (cases r) (auto simp add: and_then_def split: option.splits)

lemma DistributedSortTileRecursion_apply_foreign:
  "fst (DistributedSortTileRecursion_apply K dimen c w) \<noteq> Some (runtime_error m)"
proof (induction K dimen c w rule: DistributedSortTileRecursion_apply.induct)
  case (1 K dimen c w)
  show ?case
  proof (cases "check_signals K w")
    case (Pair e1 w1)
    note cs = this
    show ?thesis
    proof (cases e1)
      case (Some e)
      with cs check_signals_foreign [of K w m] show ?thesis
        by (subst DistributedSortTileRecursion_apply.simps) simp
    next
      case None
      note n1 = this
      show ?thesis
      proof (cases "sort_and_balance_step K dimen c w1")
        case (Pair e2 w2)
        note ss = this
        show ?thesis
        proof (cases e2)
          case (Some e)
          with cs n1 ss sort_and_balance_step_foreign [of K dimen c w1 m] show ?thesis
            by (subst DistributedSortTileRecursion_apply.simps) simp
        next
          case None
          show ?thesis
          proof (cases "2 \<le> dimen")
            case True
            with cs n1 ss None show ?thesis
              by (subst DistributedSortTileRecursion_apply.simps) simp
          next
            case False
            from "1.IH" [OF cs [symmetric] n1 ss [symmetric] None False refl refl refl refl]
            show ?thesis using cs n1 ss None False
              by (subst DistributedSortTileRecursion_apply.simps) (simp add: Let_def)
          qed
        qed
      qed
    qed
  qed
qed

lemma subtree_loop_foreign:
  "fst (subtree_loop K rank n k w) \<noteq> Some (runtime_error m)"
proof (induction K rank n k w rule: subtree_loop.induct)
  case (1 K rank n k w)
  show ?case
  proof (cases "k < n")
    case False
    then show ?thesis by (subst subtree_loop.simps) simp
  next
    case True
    note kn = this
    show ?thesis
    proof (cases "check_signals K w")
      case (Pair e1 w1)
      note cs = this
      show ?thesis
      proof (cases e1)
        case (Some e)
        with kn cs check_signals_foreign [of K w m] show ?thesis
          by (subst subtree_loop.simps) simp
      next
        case None
        note n1 = this
        let ?lo = "partition_boundaries K (length (vals w1)) k"
        let ?hi = "partition_boundaries K (length (vals w1)) (k + 1)"
        let ?st = "take (?hi - ?lo) (drop ?lo (vals w1))"
        let ?kp = "rank * n + k"
        show ?thesis
        proof (cases "storage_save_subtree K ?st ?kp")
          case (Some x)
          with kn cs n1 show ?thesis
            by (subst subtree_loop.simps) (simp add: Let_def)
        next
          case None
          from "1.IH" [OF kn cs [symmetric] n1 refl refl refl refl None]
          show ?thesis using kn cs n1 None
            by (subst subtree_loop.simps) (simp add: Let_def)
        qed
      qed
    qed
  qed
qed

text \<open>
  C6. \<^verbatim>\<open>distributed_partition\<close> fails with \<^verbatim>\<open>InsufficientElements\<close> exactly when the
  local vector holds fewer than \<open>10 R\<close> elements, \<open>R\<close> being the size of the
  communicator; it then stops at the first statement and leaves the state as it found
  it: no sort, no split of the communicator, no saved subtree, no gather.
\<close>

theorem distributed_partition_too_few:
  "(\<exists>e. fst (distributed_partition K comm w) = Some e \<and> InsufficientElements e)
     = (length (vals w) < 10 * mpi_size K comm)
   \<and> (length (vals w) < 10 * mpi_size K comm \<longrightarrow>
        snd (distributed_partition K comm w) = w)"
proof (cases "length (vals w) < 10 * mpi_size K comm")
  case True
  then show ?thesis
    by (simp add: distributed_partition_def InsufficientElements_def)
next
  case False
  have "fst (distributed_partition K comm w) \<noteq> Some (runtime_error ''Too few elements.'')"
    using False
    unfolding distributed_partition_def distributed_sort_tile_recursion_def Let_def
    by (simp only: if_False)
       (intro and_then_foreign DistributedSortTileRecursion_apply_foreign
          subtree_loop_foreign check_signals_foreign gather_bounding_boxes_foreign,
        simp add: save_top_tree_step_foreign)
  with False show ?thesis
    by (simp add: InsufficientElements_def)
qed

theorem distributed_partition_too_few_witness:
  "length (vals three_values) < 10 * mpi_size two_ranks ()
   \<and> (\<exists>e. fst (distributed_partition two_ranks () three_values) = Some e
           \<and> InsufficientElements e)
   \<and> snd (distributed_partition two_ranks () three_values) = three_values
   \<and> effects (snd (distributed_partition two_ranks () three_values)) = []"
proof -
  have few: "length (vals three_values) < 10 * mpi_size two_ranks ()"
    by (simp add: three_values_def two_ranks_def)
  from distributed_partition_too_few [of two_ranks "()" three_values] few
  have "(\<exists>e. fst (distributed_partition two_ranks () three_values) = Some e
           \<and> InsufficientElements e)
      \<and> snd (distributed_partition two_ranks () three_values) = three_values"
    by (simp only: simp_thms)
  with few show ?thesis
    by (simp add: three_values_def)
qed

end

